theory Spec2Isabelle
  imports Complex_Main
begin

section \<open>Python values and the object store\<close>

text \<open>
  The notebook \<^verbatim>\<open>misc/speculative_prompt_caching.ipynb\<close> builds its requests from Python
  dictionaries and lists, copies them with \<^verbatim>\<open>copy.deepcopy\<close> and then mutates the copies.
  Whether the originals survive depends on aliasing, so dictionaries and lists live in an
  explicit store: an object is a cell of the store, a value is an atom or a reference to a
  cell. Strings and integers are immutable atoms. The strings the program builds and
  prints are opaque to it and are \<open>string\<close>s; the text units of a streamed answer, whose
  characters it inspects, are lists of Unicode code points.
\<close>

type_synonym addr = nat

datatype pyval = VStr string | VInt int | VRef addr

datatype pyobj = ODict "(string \<times> pyval) list" | OList "pyval list"

type_synonym heap = "pyobj list"

definition lookup :: "heap \<Rightarrow> addr \<Rightarrow> pyobj option" where
  "lookup h a = (if a < length h then Some (h ! a) else None)"

text \<open>\<^verbatim>\<open>d[k] = v\<close> on the items of a dictionary: an existing key keeps its position.\<close>

fun dict_set :: "('k \<times> 'v) list \<Rightarrow> 'k \<Rightarrow> 'v \<Rightarrow> ('k \<times> 'v) list" where
  "dict_set [] k v = [(k, v)]"
| "dict_set ((k', v') # kvs) k v =
     (if k' = k then (k', v) # kvs else (k', v') # dict_set kvs k v)"

text \<open>
  \<^verbatim>\<open>copy.deepcopy(x, memo)\<close>: atoms are returned as they are; for a list or a dictionary
  the empty copy \<^verbatim>\<open>y\<close> is created and entered in the memo first, then filled with the copies
  of the members. The recursion follows references, so it carries fuel; running out of it
  is the value \<open>None\<close>.
\<close>

type_synonym memo = "addr \<rightharpoonup> addr"

fun deepcopy_fuel :: "nat \<Rightarrow> pyval \<Rightarrow> heap \<times> memo \<Rightarrow> (pyval \<times> heap \<times> memo) option"
  and deepcopy_items :: "nat \<Rightarrow> pyval list \<Rightarrow> heap \<times> memo \<Rightarrow> (pyval list \<times> heap \<times> memo) option"
where
  "deepcopy_fuel 0 x hm = None"
| "deepcopy_fuel (Suc n) (VStr s) hm = Some (VStr s, hm)"
| "deepcopy_fuel (Suc n) (VInt i) hm = Some (VInt i, hm)"
| "deepcopy_fuel (Suc n) (VRef a) (h, m) =
     (case m a of
        Some y \<Rightarrow> Some (VRef y, h, m)
      | None \<Rightarrow>
         (case lookup h a of
            None \<Rightarrow> None
          | Some (OList xs) \<Rightarrow>
             (case deepcopy_items n xs (h @ [OList []], m(a \<mapsto> length h)) of
                None \<Rightarrow> None
              | Some (ys, h', m') \<Rightarrow> Some (VRef (length h), h'[length h := OList ys], m'))
          | Some (ODict kvs) \<Rightarrow>
             (case deepcopy_items n (map snd kvs) (h @ [ODict []], m(a \<mapsto> length h)) of
                None \<Rightarrow> None
              | Some (vs, h', m') \<Rightarrow>
                  Some (VRef (length h), h'[length h := ODict (zip (map fst kvs) vs)], m'))))"
| "deepcopy_items n [] hm = Some ([], hm)"
| "deepcopy_items n (x # xs) hm =
     (case deepcopy_fuel n x hm of
        None \<Rightarrow> None
      | Some (y, hm') \<Rightarrow>
         (case deepcopy_items n xs hm' of
            None \<Rightarrow> None
          | Some (ys, hm'') \<Rightarrow> Some (y # ys, hm'')))"

text \<open>
  A path without repetition visits at most \<open>length h\<close> objects, and the memo stops every
  repetition, so \<open>Suc (length h)\<close> levels are enough for a store without dangling reference.
\<close>

definition deepcopy :: "heap \<Rightarrow> pyval \<Rightarrow> (pyval \<times> heap) option" where
  "deepcopy h x =
     (case deepcopy_fuel (Suc (length h)) x (h, Map.empty) of
        None \<Rightarrow> None
      | Some (y, h', m) \<Rightarrow> Some (y, h'))"

text \<open>
  What goes over the wire is the JSON text of a value, a function of the tree below it.
  Two values are sent byte-identically exactly when their trees are equal.
\<close>

datatype json = JStr string | JInt int | JList "json list" | JDict "(string \<times> json) list"

fun serialize_fuel :: "nat \<Rightarrow> heap \<Rightarrow> pyval \<Rightarrow> json option"
  and serialize_items :: "nat \<Rightarrow> heap \<Rightarrow> pyval list \<Rightarrow> json list option"
where
  "serialize_fuel 0 h x = None"
| "serialize_fuel (Suc n) h (VStr s) = Some (JStr s)"
| "serialize_fuel (Suc n) h (VInt i) = Some (JInt i)"
| "serialize_fuel (Suc n) h (VRef a) =
     (case lookup h a of
        None \<Rightarrow> None
      | Some (OList xs) \<Rightarrow> map_option JList (serialize_items n h xs)
      | Some (ODict kvs) \<Rightarrow>
          map_option (\<lambda>js. JDict (zip (map fst kvs) js)) (serialize_items n h (map snd kvs)))"
| "serialize_items n h [] = Some []"
| "serialize_items n h (x # xs) =
     (case serialize_fuel n h x of
        None \<Rightarrow> None
      | Some j \<Rightarrow> map_option ((#) j) (serialize_items n h xs))"

text \<open>More than \<open>length h\<close> nested objects means a circular reference, which has no JSON.\<close>

definition serialize :: "heap \<Rightarrow> pyval \<Rightarrow> json option" where
  "serialize h x = serialize_fuel (Suc (length h)) h x"

section \<open>Configuration constants (cell 3)\<close>

definition MODEL :: string where
  "MODEL = ''claude-3-5-sonnet-20241022''"

text \<open>The items of the dictionary \<^verbatim>\<open>SQLITE_SOURCES\<close>, in insertion order.\<close>

definition SQLITE_SOURCES :: "(string \<times> string) list" where
  "SQLITE_SOURCES =
     [(''btree.h'', ''https://sqlite.org/src/raw/18e5e7b2124c23426a283523e5f31a4bff029131b795bb82391f9d2f3136fc50?at=btree.h''),
      (''btree.c'', ''https://sqlite.org/src/raw/63ca6b647342e8cef643863cd0962a542f133e1069460725ba4461dcda92b03c?at=btree.c'')]"

text \<open>
  \<^verbatim>\<open>DEFAULT_CLIENT_ARGS\<close> is a dictionary with a nested dictionary: two objects of the
  store, created when the cell runs, the inner one first.
\<close>

definition extra_headers_obj :: pyobj where
  "extra_headers_obj = ODict [(''anthropic-beta'', VStr ''prompt-caching-2024-07-31'')]"

definition default_client_args_obj :: pyobj where
  "default_client_args_obj = ODict
     [(''system'', VStr ''You are an expert systems programmer helping analyze database internals.''),
      (''max_tokens'', VInt 4096),
      (''temperature'', VInt 0),
      (''extra_headers'', VRef 0)]"

definition module_heap :: heap where
  "module_heap = [extra_headers_obj, default_client_args_obj]"

definition DEFAULT_CLIENT_ARGS :: pyval where
  "DEFAULT_CLIENT_ARGS = VRef 1"

section \<open>Errors, the world outside and the program state\<close>

datatype error =
    KeyError string
  | TypeError
  | ZeroDivisionError
  | ValueError
  | TimeoutException
  | ConnectError
  | HTTPStatusError nat
  | APIError string

record http_response =
  status_code :: nat
  body :: string

text \<open>\<^verbatim>\<open>getattr(response.usage, name, '---')\<close>: the attribute may be missing, \<^verbatim>\<open>None\<close> or a count.\<close>

datatype attr = Missing | PyNone | Count int

record usage_counts =
  input_tokens :: int
  output_tokens :: int
  cache_read_input_tokens :: attr
  cache_creation_input_tokens :: attr

record api_response =
  usage :: usage_counts

record request =
  rq_messages :: json
  rq_model :: string
  rq_args :: "(string \<times> json) list"

text \<open>A Python \<^verbatim>\<open>str\<close> whose characters matter: the list of its code points.\<close>

type_synonym pystr = "nat list"

text \<open>
  A streamed answer: the time from sending the request until the stream is open, the text
  units, each with the time it takes to arrive after the one before it (after the opening,
  for the first), and how the stream ends (the time after the last unit, and the final
  message or the error that breaks the stream).
\<close>

record text_stream =
  open_delay :: real
  chunks :: "(real \<times> pystr) list"
  ending :: "real \<times> (error + api_response)"

record datetime =
  year :: nat
  month :: nat
  day :: nat
  hour :: nat
  minute :: nat
  second :: nat
  microsecond :: nat

text \<open>
  The external collaborators, as fakes with controllable delays: what a GET of a URL
  gives and after how long (\<open>Inl\<close>: the transport fails or times out), what the local
  clock shows at a given time, and what the inference service answers to a request.
\<close>

record env =
  http_get :: "string \<Rightarrow> real \<times> (error + http_response)"
  datetime_now :: "real \<Rightarrow> datetime"
  messages_create :: "request \<Rightarrow> real \<times> (error + api_response)"
  messages_stream :: "request \<Rightarrow> text_stream"

datatype call = Create | Stream

datatype event =
    Request_sent real call request
  | Response_done real call
  | Timer_fired real

text \<open>
  A printed line is a list of fragments: text, a float under \<^verbatim>\<open>:.2f\<close> or \<^verbatim>\<open>:.1f\<close>
  (its decimal expansion is not modelled) or one code point beyond the characters.
\<close>

datatype frag = Txt string | Fixed nat real | Uni nat

record state =
  heap :: heap
  clock :: real
  stdout :: "frag list list"
  trace :: "event list"

type_synonym 'a io = "state \<Rightarrow> (error + 'a) \<times> state"

definition ret :: "'a \<Rightarrow> 'a io" where
  "ret x s = (Inr x, s)"

definition raise :: "error \<Rightarrow> 'a io" where
  "raise e s = (Inl e, s)"

definition and_then :: "'a io \<Rightarrow> ('a \<Rightarrow> 'b io) \<Rightarrow> 'b io" where
  "and_then m f s = (case m s of (Inl e, s') \<Rightarrow> (Inl e, s') | (Inr x, s') \<Rightarrow> f x s')"

definition print :: "frag list \<Rightarrow> unit io" where
  "print l s = (Inr (), s\<lparr>stdout := stdout s @ [l]\<rparr>)"

definition time_time :: "real io" where
  "time_time s = (Inr (clock s), s)"

subsection \<open>Operations on objects\<close>

definition new_object :: "pyobj \<Rightarrow> pyval io" where
  "new_object ob s = (Inr (VRef (length (heap s))), s\<lparr>heap := heap s @ [ob]\<rparr>)"

definition copy_deepcopy :: "pyval \<Rightarrow> pyval io" where
  "copy_deepcopy x s =
     (case deepcopy (heap s) x of
        None \<Rightarrow> (Inl ValueError, s)
      | Some (y, h') \<Rightarrow> (Inr y, s\<lparr>heap := h'\<rparr>))"

text \<open>\<^verbatim>\<open>d[k]\<close>, \<^verbatim>\<open>d[k] = v\<close> and \<^verbatim>\<open>l.append(v)\<close>.\<close>

definition getitem :: "pyval \<Rightarrow> string \<Rightarrow> pyval io" where
  "getitem d k s =
     (case d of
        VRef a \<Rightarrow>
         (case lookup (heap s) a of
            Some (ODict kvs) \<Rightarrow>
              (case map_of kvs k of None \<Rightarrow> (Inl (KeyError k), s) | Some v \<Rightarrow> (Inr v, s))
          | _ \<Rightarrow> (Inl TypeError, s))
      | _ \<Rightarrow> (Inl TypeError, s))"

definition setitem :: "pyval \<Rightarrow> string \<Rightarrow> pyval \<Rightarrow> unit io" where
  "setitem d k v s =
     (case d of
        VRef a \<Rightarrow>
         (case lookup (heap s) a of
            Some (ODict kvs) \<Rightarrow> (Inr (), s\<lparr>heap := (heap s)[a := ODict (dict_set kvs k v)]\<rparr>)
          | _ \<Rightarrow> (Inl TypeError, s))
      | _ \<Rightarrow> (Inl TypeError, s))"

definition list_append :: "pyval \<Rightarrow> pyval \<Rightarrow> unit io" where
  "list_append l v s =
     (case l of
        VRef a \<Rightarrow>
         (case lookup (heap s) a of
            Some (OList xs) \<Rightarrow> (Inr (), s\<lparr>heap := (heap s)[a := OList (xs @ [v])]\<rparr>)
          | _ \<Rightarrow> (Inl TypeError, s))
      | _ \<Rightarrow> (Inl TypeError, s))"

subsection \<open>The event loop, in virtual time\<close>

text \<open>
  \<^verbatim>\<open>asyncio.create_task\<close> starts a coroutine that runs beside its creator. The coroutine
  of this notebook suspends once, in its service call, and returns right after it: what it
  does to the store happens when it starts, and its outcome is there at the time the
  service call ends. The creator's clock does not move.
\<close>

record 'a task =
  task_outcome :: "error + 'a"
  task_done_at :: real

definition asyncio_create_task :: "'a io \<Rightarrow> 'a task io" where
  "asyncio_create_task coro s =
     (case coro s of
        (r, s') \<Rightarrow> (Inr \<lparr>task_outcome = r, task_done_at = clock s'\<rparr>, s'\<lparr>clock := clock s\<rparr>))"

definition asyncio_sleep :: "real \<Rightarrow> unit io" where
  "asyncio_sleep d s =
     (Inr (), s\<lparr>clock := clock s + d, trace := trace s @ [Timer_fired (clock s + d)]\<rparr>)"

text \<open>\<^verbatim>\<open>await task\<close>: resume when the task is done; its exception is raised in the awaiter.\<close>

definition await_task :: "'a task \<Rightarrow> 'a io" where
  "await_task t s = (task_outcome t, s\<lparr>clock := max (clock s) (task_done_at t)\<rparr>)"

section \<open>Strings\<close>

text \<open>\<^verbatim>\<open>str(n)\<close> for a natural number and for an integer.\<close>

definition digit_char :: "nat \<Rightarrow> char" where
  "digit_char d = ''0123456789'' ! d"

function str_nat :: "nat \<Rightarrow> string" where
  "str_nat n = (if n < 10 then [digit_char n] else str_nat (n div 10) @ [digit_char (n mod 10)])"
  by pat_completeness auto
termination
  by (relation "measure id") auto

declare str_nat.simps [simp del]

definition str_int :: "int \<Rightarrow> string" where
  "str_int i = (if i < 0 then CHR ''-'' # str_nat (nat (- i)) else str_nat (nat i))"

definition zfill :: "nat \<Rightarrow> string \<Rightarrow> string" where
  "zfill w s = replicate (w - length s) CHR ''0'' @ s"

text \<open>\<^verbatim>\<open>strftime("%Y-%m-%d %H:%M:%S")\<close>: the microseconds are not part of the format.\<close>

definition strftime :: "datetime \<Rightarrow> string" where
  "strftime d =
     zfill 4 (str_nat (year d)) @ ''-'' @ zfill 2 (str_nat (month d)) @ ''-'' @
     zfill 2 (str_nat (day d)) @ '' '' @ zfill 2 (str_nat (hour d)) @ '':'' @
     zfill 2 (str_nat (minute d)) @ '':'' @ zfill 2 (str_nat (second d))"

text \<open>
  The whitespace of \<^verbatim>\<open>str.isspace\<close> and \<^verbatim>\<open>str.strip()\<close>: the 29 code points U+0009 to
  U+000D, U+001C to U+0020, U+0085, U+00A0, U+1680, U+2000 to U+200A, U+2028, U+2029,
  U+202F, U+205F and U+3000. \<^verbatim>\<open>strip()\<close> removes the whitespace at both ends. A string
  is true when it is not empty.
\<close>

definition isspace :: "nat \<Rightarrow> bool" where
  "isspace c =
     ((0x09 \<le> c \<and> c \<le> 0x0D) \<or> (0x1C \<le> c \<and> c \<le> 0x20) \<or> c = 0x85 \<or> c = 0xA0 \<or>
      c = 0x1680 \<or> (0x2000 \<le> c \<and> c \<le> 0x200A) \<or> c = 0x2028 \<or> c = 0x2029 \<or>
      c = 0x202F \<or> c = 0x205F \<or> c = 0x3000)"

definition strip :: "pystr \<Rightarrow> pystr" where
  "strip s = rev (dropWhile isspace (rev (dropWhile isspace s)))"

text \<open>The code points of a string of 8-bit characters.\<close>

definition code_points :: "string \<Rightarrow> pystr" where
  "code_points s = map of_char s"

section \<open>Helper functions (cell 5)\<close>

subsection \<open>\<^verbatim>\<open>get_sqlite_sources\<close>\<close>

text \<open>
  \<^verbatim>\<open>download_file\<close>: the time the coroutine takes and what it returns or raises.
  \<^verbatim>\<open>raise_for_status\<close> raises unless the status is a success (2xx).
\<close>

definition is_success :: "http_response \<Rightarrow> bool" where
  "is_success r = (200 \<le> status_code r \<and> status_code r \<le> 299)"

definition download_file :: "env \<Rightarrow> string \<times> string \<Rightarrow> real \<times> (error + string \<times> string)" where
  "download_file env fu =
     (case fu of (filename, url) \<Rightarrow>
       (case http_get env url of
          (d, Inl e) \<Rightarrow> (d, Inl e)
        | (d, Inr response) \<Rightarrow>
            if is_success response then (d, Inr (filename, body response))
            else (d, Inl (HTTPStatusError (status_code response)))))"

text \<open>
  \<^verbatim>\<open>await asyncio.gather(*tasks)\<close>: the coroutines start together at \<open>t0\<close> and finish in
  the order of their durations (the earlier task first when two take the same time). One
  that succeeds prints its line; the first one that raises ends the wait with its
  exception, at the time it raises.
\<close>

fun await_gather :: "real \<Rightarrow> (real \<times> (error + string \<times> string)) list \<Rightarrow> unit io" where
  "await_gather t0 [] s = (Inr (), s)"
| "await_gather t0 ((d, Inl e) # cs) s = (Inl e, s\<lparr>clock := t0 + d\<rparr>)"
| "await_gather t0 ((d, Inr (filename, content)) # cs) s =
     await_gather t0 cs
       (s\<lparr>clock := t0 + d, stdout := stdout s @ [[Txt (''Successfully downloaded '' @ filename)]]\<rparr>)"

text \<open>The results of the tasks, in the order of the tasks, and \<^verbatim>\<open>dict(results)\<close>.\<close>

definition results_of :: "(real \<times> (error + 'a)) list \<Rightarrow> 'a list" where
  "results_of tasks = concat (map (\<lambda>(d, r). case r of Inl e \<Rightarrow> [] | Inr x \<Rightarrow> [x]) tasks)"

definition dict :: "('k \<times> 'v) list \<Rightarrow> ('k \<times> 'v) list" where
  "dict results = foldl (\<lambda>d (k, v). dict_set d k v) [] results"

text \<open>
  The function reads the global \<^verbatim>\<open>SQLITE_SOURCES\<close> when it is called; the items of that
  dictionary are the first argument here.
\<close>

definition get_sqlite_sources :: "(string \<times> string) list \<Rightarrow> env \<Rightarrow> (string \<times> string) list io" where
  "get_sqlite_sources sources env =
     and_then (print [Txt ''Downloading SQLite source files...'']) (\<lambda>_.
     and_then time_time (\<lambda>start_time.
     let tasks = map (download_file env) sources in
     and_then (await_gather start_time (sort_key fst tasks)) (\<lambda>_.
     let source_files = dict (results_of tasks) in
     and_then time_time (\<lambda>t.
     let duration = t - start_time in
     and_then (print [Txt (''Downloaded '' @ str_nat (length source_files) @ '' files in ''),
                      Fixed 2 duration, Txt '' seconds'']) (\<lambda>_.
     ret source_files)))))"

subsection \<open>\<^verbatim>\<open>create_initial_message\<close>\<close>

definition dict_lookup :: "(string \<times> 'v) list \<Rightarrow> string \<Rightarrow> 'v io" where
  "dict_lookup d k s = (case map_of d k of None \<Rightarrow> (Inl (KeyError k), s) | Some v \<Rightarrow> (Inr v, s))"

definition message_text :: "string \<Rightarrow> string \<Rightarrow> string \<Rightarrow> string" where
  "message_text now btree_h btree_c =
     ''\<newline>Current time: '' @ now @ ''\<newline>\<newline>Source to Analyze:\<newline>\<newline>btree.h:\<newline>```c\<newline>'' @ btree_h @
     ''\<newline>```\<newline>\<newline>btree.c:\<newline>```c\<newline>'' @ btree_c @ ''\<newline>```''"

definition create_initial_message :: "(string \<times> string) list \<Rightarrow> env \<Rightarrow> pyval io" where
  "create_initial_message sources env =
     and_then (get_sqlite_sources sources env) (\<lambda>sources.
     and_then time_time (\<lambda>t.
     let now = strftime (datetime_now env t) in
     and_then (dict_lookup sources ''btree.h'') (\<lambda>btree_h.
     and_then (dict_lookup sources ''btree.c'') (\<lambda>btree_c.
     and_then (new_object (ODict [(''type'', VStr ''ephemeral'')])) (\<lambda>cache_control.
     and_then (new_object (ODict [(''type'', VStr ''text''),
                                  (''text'', VStr (message_text now btree_h btree_c)),
                                  (''cache_control'', cache_control)])) (\<lambda>block.
     and_then (new_object (OList [block])) (\<lambda>content.
     and_then (new_object (ODict [(''role'', VStr ''user''), (''content'', content)])) (\<lambda>initial_message.
     ret initial_message))))))))"

subsection \<open>\<^verbatim>\<open>sample_one_token\<close>\<close>

text \<open>
  A request is what the service receives: the JSON of the messages, the model and the
  keyword arguments, which are the items of the unpacked dictionary.
\<close>

definition build_request :: "heap \<Rightarrow> pyval \<Rightarrow> pyval \<Rightarrow> request option" where
  "build_request h messages args =
     (case (serialize h messages, serialize h args) of
        (Some jm, Some (JDict kw)) \<Rightarrow> Some \<lparr>rq_messages = jm, rq_model = MODEL, rq_args = kw\<rparr>
      | _ \<Rightarrow> None)"

definition client_messages_create :: "env \<Rightarrow> pyval \<Rightarrow> pyval \<Rightarrow> api_response io" where
  "client_messages_create env messages args s =
     (case build_request (heap s) messages args of
        None \<Rightarrow> (Inl TypeError, s)
      | Some rq \<Rightarrow>
         (case messages_create env rq of
            (d, r) \<Rightarrow>
              (r, s\<lparr>clock := clock s + d,
                    trace := trace s @ [Request_sent (clock s) Create rq,
                                        Response_done (clock s + d) Create]\<rparr>)))"

definition sample_one_token :: "env \<Rightarrow> pyval \<Rightarrow> unit io" where
  "sample_one_token env messages =
     and_then (copy_deepcopy DEFAULT_CLIENT_ARGS) (\<lambda>args.
     and_then (setitem args ''max_tokens'' (VInt 1)) (\<lambda>_.
     and_then (client_messages_create env messages args) (\<lambda>_.
     ret ())))"

subsection \<open>\<^verbatim>\<open>print_query_statistics\<close>\<close>

definition str_attr :: "attr \<Rightarrow> string" where
  "str_attr a = (case a of Missing \<Rightarrow> ''---'' | PyNone \<Rightarrow> ''None'' | Count n \<Rightarrow> str_int n)"

definition print_query_statistics :: "api_response \<Rightarrow> string \<Rightarrow> unit io" where
  "print_query_statistics response query_type =
     and_then (print [Txt (''\<newline>'' @ query_type @ '' query statistics:'')]) (\<lambda>_.
     and_then (print [Txt (CHR 0x09 # ''Input tokens: '' @ str_int (input_tokens (usage response)))]) (\<lambda>_.
     and_then (print [Txt (CHR 0x09 # ''Output tokens: '' @ str_int (output_tokens (usage response)))]) (\<lambda>_.
     and_then (print [Txt (CHR 0x09 # ''Cache read input tokens: '' @
                           str_attr (cache_read_input_tokens (usage response)))]) (\<lambda>_.
     print [Txt (CHR 0x09 # ''Cache creation input tokens: '' @
                 str_attr (cache_creation_input_tokens (usage response)))]))))"

section \<open>The two demonstrations (cells 7 and 10)\<close>

text \<open>
  Entering \<^verbatim>\<open>async with client.messages.stream(...)\<close> sends the request and returns when
  the stream is open.
\<close>

definition client_messages_stream :: "env \<Rightarrow> pyval \<Rightarrow> pyval \<Rightarrow> text_stream io" where
  "client_messages_stream env messages args s =
     (case build_request (heap s) messages args of
        None \<Rightarrow> (Inl TypeError, s)
      | Some rq \<Rightarrow>
          (Inr (messages_stream env rq),
           s\<lparr>clock := clock s + open_delay (messages_stream env rq),
             trace := trace s @ [Request_sent (clock s) Stream rq]\<rparr>))"

text \<open>
  The loop \<^verbatim>\<open>async for text in stream.text_stream\<close> with its \<^verbatim>\<open>break\<close>: it returns the
  time to the first token, if any, and the units it has not read.
\<close>

fun text_stream_loop ::
  "nat \<Rightarrow> real \<Rightarrow> (real \<times> pystr) list \<Rightarrow> real option \<Rightarrow> (real option \<times> (real \<times> pystr) list) io"
where
  "text_stream_loop emoji start_time [] first_token_time s = (Inr (first_token_time, []), s)"
| "text_stream_loop emoji start_time ((d, txt) # rest) first_token_time s =
     (if first_token_time = None \<and> strip txt \<noteq> [] then
        (Inr (Some (clock s + d - start_time), rest),
         s\<lparr>clock := clock s + d,
           stdout := stdout s @ [[Txt ''\<newline>'', Uni emoji, Txt '' Time to first token: '',
                                  Fixed 2 (clock s + d - start_time), Txt '' seconds'']]\<rparr>)
      else text_stream_loop emoji start_time rest first_token_time (s\<lparr>clock := clock s + d\<rparr>))"

text \<open>\<^verbatim>\<open>await stream.get_final_message()\<close> reads the stream to its end.\<close>

definition get_final_message :: "(real \<times> pystr) list \<Rightarrow> real \<times> (error + api_response) \<Rightarrow> api_response io" where
  "get_final_message rest e s =
     (snd e, s\<lparr>clock := clock s + sum_list (map fst rest) + fst e,
               trace := trace s @ [Response_done (clock s + sum_list (map fst rest) + fst e) Stream]\<rparr>)"

definition user_question :: string where
  "user_question = ''What is the purpose of the BtShared structure?''"

definition question_block :: pyobj where
  "question_block =
     ODict [(''type'', VStr ''text''),
            (''text'', VStr (''Answer the user'' @ [CHR 0x27] @ ''s question: '' @ user_question))]"

definition standard_prompt_caching_demo :: "env \<Rightarrow> (real option \<times> real) io" where
  "standard_prompt_caching_demo env =
     and_then (create_initial_message SQLITE_SOURCES env) (\<lambda>initial_message.
     and_then (print [Txt ''User is typing their question...'']) (\<lambda>_.
     and_then (asyncio_sleep 3) (\<lambda>_.
     and_then (print [Txt (''User submitted: '' @ user_question)]) (\<lambda>_.
     and_then (copy_deepcopy initial_message) (\<lambda>full_message.
     and_then (getitem full_message ''content'') (\<lambda>content.
     and_then (new_object question_block) (\<lambda>question.
     and_then (list_append content question) (\<lambda>_.
     and_then (print [Txt ''\<newline>Sending request to API...'']) (\<lambda>_.
     and_then time_time (\<lambda>start_time.
     and_then (new_object (OList [full_message])) (\<lambda>messages.
     and_then (client_messages_stream env messages DEFAULT_CLIENT_ARGS) (\<lambda>stream.
     and_then (text_stream_loop 0x1F550 start_time (chunks stream) None) (\<lambda>(first_token_time, rest).
     and_then (get_final_message rest (ending stream)) (\<lambda>response.
     and_then time_time (\<lambda>t.
     let total_time = t - start_time in
     and_then (print [Txt ''Total response time: '', Fixed 2 total_time, Txt '' seconds'']) (\<lambda>_.
     and_then (print_query_statistics response ''Standard Caching'') (\<lambda>_.
     ret (first_token_time, total_time))))))))))))))))))"

definition speculative_prompt_caching_demo :: "env \<Rightarrow> (real option \<times> real) io" where
  "speculative_prompt_caching_demo env =
     and_then (create_initial_message SQLITE_SOURCES env) (\<lambda>initial_message.
     and_then (print [Txt ''User is typing their question...'']) (\<lambda>_.
     and_then (print [Uni 0x1F525, Txt '' Starting cache warming in background...'']) (\<lambda>_.
     and_then (new_object (OList [initial_message])) (\<lambda>probe_messages.
     and_then (asyncio_create_task (sample_one_token env probe_messages)) (\<lambda>cache_task.
     and_then (asyncio_sleep 3) (\<lambda>_.
     and_then (print [Txt (''User submitted: '' @ user_question)]) (\<lambda>_.
     and_then (await_task cache_task) (\<lambda>_.
     and_then (print [Uni 0x2705, Txt '' Cache warming completed!'']) (\<lambda>_.
     and_then (copy_deepcopy initial_message) (\<lambda>cached_message.
     and_then (getitem cached_message ''content'') (\<lambda>content.
     and_then (new_object question_block) (\<lambda>question.
     and_then (list_append content question) (\<lambda>_.
     and_then (print [Txt ''\<newline>Sending request to API (with warm cache)...'']) (\<lambda>_.
     and_then time_time (\<lambda>start_time.
     and_then (new_object (OList [cached_message])) (\<lambda>messages.
     and_then (client_messages_stream env messages DEFAULT_CLIENT_ARGS) (\<lambda>stream.
     and_then (text_stream_loop 0x1F680 start_time (chunks stream) None) (\<lambda>(first_token_time, rest).
     and_then (get_final_message rest (ending stream)) (\<lambda>response.
     and_then time_time (\<lambda>t.
     let total_time = t - start_time in
     and_then (print [Txt ''Total response time: '', Fixed 2 total_time, Txt '' seconds'']) (\<lambda>_.
     and_then (print_query_statistics response ''Speculative Caching'') (\<lambda>_.
     ret (first_token_time, total_time)))))))))))))))))))))))"

section \<open>The comparison (cell 13)\<close>

text \<open>
  The floats of the program are real numbers here. A time to first token is \<^verbatim>\<open>None\<close>
  when the stream had no unit with text; arithmetic and \<^verbatim>\<open>:.2f\<close> on it raise TypeError.
\<close>

definition ttft_improvement :: "real option \<Rightarrow> real option \<Rightarrow> error + real" where
  "ttft_improvement standard_ttft speculative_ttft =
     (case (standard_ttft, speculative_ttft) of
        (Some s, Some p) \<Rightarrow> if s = 0 then Inl ZeroDivisionError else Inr ((s - p) / s * 100)
      | _ \<Rightarrow> Inl TypeError)"

definition total_improvement :: "real \<Rightarrow> real \<Rightarrow> error + real" where
  "total_improvement standard_total speculative_total =
     (if standard_total = 0 then Inl ZeroDivisionError
      else Inr ((standard_total - speculative_total) / standard_total * 100))"

section \<open>Expected requests and fakes for the external collaborators\<close>

text \<open>The keyword arguments of a request, as JSON, for a given output budget.\<close>

definition client_args_json :: "int \<Rightarrow> (string \<times> json) list" where
  "client_args_json max_tokens =
     [(''system'', JStr ''You are an expert systems programmer helping analyze database internals.''),
      (''max_tokens'', JInt max_tokens),
      (''temperature'', JInt 0),
      (''extra_headers'', JDict [(''anthropic-beta'', JStr ''prompt-caching-2024-07-31'')])]"

text \<open>A clock for the first minute of a run: one time unit is one second.\<close>

definition fake_clock :: "real \<Rightarrow> datetime" where
  "fake_clock t =
     \<lparr>year = 2025, month = 1, day = 2, hour = 12, minute = 0,
      second = nat \<lfloor>t\<rfloor>, microsecond = nat \<lfloor>(t - of_int \<lfloor>t\<rfloor>) * 1000000\<rfloor>\<rparr>"

definition fake_env ::
  "(string \<Rightarrow> real \<times> (error + http_response)) \<Rightarrow> real \<times> (error + api_response) \<Rightarrow> text_stream \<Rightarrow> env"
where
  "fake_env fetch probe stream =
     \<lparr>http_get = fetch, datetime_now = fake_clock,
      messages_create = (\<lambda>rq. probe), messages_stream = (\<lambda>rq. stream)\<rparr>"

definition fetch_ok :: "string \<Rightarrow> real \<times> (error + http_response)" where
  "fetch_ok url = (1 / 10, Inr \<lparr>status_code = 200, body = ''int x;''\<rparr>)"

definition cold_usage :: usage_counts where
  "cold_usage = \<lparr>input_tokens = 4, output_tokens = 1,
                  cache_read_input_tokens = Count 0, cache_creation_input_tokens = Count 151629\<rparr>"

definition warm_usage :: usage_counts where
  "warm_usage = \<lparr>input_tokens = 22, output_tokens = 330,
                  cache_read_input_tokens = Count 151629, cache_creation_input_tokens = Count 0\<rparr>"

text \<open>
  A stream that opens after a quarter of a time unit; its first unit is whitespace only,
  an ideographic space and a space.
\<close>

definition fake_stream :: text_stream where
  "fake_stream =
     \<lparr>open_delay = 1 / 4,
      chunks = [(1, [0x3000, 0x20]), (1 / 2, code_points ''Hi''), (1, code_points '' there'')],
      ending = (1 / 4, Inr \<lparr>usage = warm_usage\<rparr>)\<rparr>"

text \<open>The state of the notebook after cell 3.\<close>

definition state0 :: state where
  "state0 = \<lparr>heap = module_heap, clock = 0, stdout = [], trace = []\<rparr>"

text \<open>Three resources: a 404 after 3 time units, a success after 1, a timeout after 2.\<close>

definition three_sources :: "(string \<times> string) list" where
  "three_sources = [(''a.h'', ''u1''), (''b.h'', ''u2''), (''c.h'', ''u3'')]"

definition fetch_mixed :: "string \<Rightarrow> real \<times> (error + http_response)" where
  "fetch_mixed url =
     (if url = ''u1'' then (3, Inr \<lparr>status_code = 404, body = []\<rparr>)
      else if url = ''u2'' then (1, Inr \<lparr>status_code = 200, body = ''ok''\<rparr>)
      else (2, Inl TimeoutException))"




text \<open>The text of the context block in a run against the fakes.\<close>

definition fake_text :: string where
  "fake_text = message_text ''2025-01-02 12:00:00'' ''int x;'' ''int x;''"

section \<open>Shapes of the objects and requests of a run\<close>

text \<open>
  The four objects \<^verbatim>\<open>create_initial_message\<close> creates in a store of \<open>n\<close> objects, for
  the text \<open>tx\<close> of the context block; the four objects of a deep copy of the message
  made at address \<open>n\<close>, whose content list may hold more blocks; the two objects of a
  copy of \<^verbatim>\<open>DEFAULT_CLIENT_ARGS\<close> made at address \<open>k\<close>; and the six objects the final
  request is built from at address \<open>k\<close>: the copy with the question appended, the
  question block and the list of messages.
\<close>

definition context_objects :: "nat \<Rightarrow> string \<Rightarrow> pyobj list" where
  "context_objects n tx =
     [ODict [(''type'', VStr ''ephemeral'')],
      ODict [(''type'', VStr ''text''), (''text'', VStr tx), (''cache_control'', VRef n)],
      OList [VRef (n + 1)],
      ODict [(''role'', VStr ''user''), (''content'', VRef (n + 2))]]"

definition message_copy :: "nat \<Rightarrow> string \<Rightarrow> pyval list \<Rightarrow> pyobj list" where
  "message_copy n tx extra =
     [ODict [(''role'', VStr ''user''), (''content'', VRef (n + 1))],
      OList (VRef (n + 2) # extra),
      ODict [(''type'', VStr ''text''), (''text'', VStr tx), (''cache_control'', VRef (n + 3))],
      ODict [(''type'', VStr ''ephemeral'')]]"

definition args_copy :: "nat \<Rightarrow> int \<Rightarrow> pyobj list" where
  "args_copy k max_tokens =
     [ODict [(''system'', VStr ''You are an expert systems programmer helping analyze database internals.''),
             (''max_tokens'', VInt max_tokens),
             (''temperature'', VInt 0),
             (''extra_headers'', VRef (k + 1))],
      extra_headers_obj]"

definition final_objects :: "nat \<Rightarrow> string \<Rightarrow> pyobj list" where
  "final_objects k tx = message_copy k tx [VRef (k + 4)] @ [question_block, OList [VRef k]]"

definition context_block :: "string \<Rightarrow> json" where
  "context_block tx =
     JDict [(''type'', JStr ''text''), (''text'', JStr tx),
            (''cache_control'', JDict [(''type'', JStr ''ephemeral'')])]"

definition question_json :: json where
  "question_json =
     JDict [(''type'', JStr ''text''),
            (''text'', JStr (''Answer the user'' @ [CHR 0x27] @ ''s question: '' @ user_question))]"

definition message_json :: "json list \<Rightarrow> json" where
  "message_json blocks = JDict [(''role'', JStr ''user''), (''content'', JList blocks)]"

definition probe_request :: "string \<Rightarrow> request" where
  "probe_request tx =
     \<lparr>rq_messages = JList [message_json [context_block tx]], rq_model = MODEL,
      rq_args = client_args_json 1\<rparr>"

definition final_request :: "string \<Rightarrow> request" where
  "final_request tx =
     \<lparr>rq_messages = JList [message_json [context_block tx, question_json]], rq_model = MODEL,
      rq_args = client_args_json 4096\<rparr>"

text \<open>
  The end of both demonstrations, from the loop over the stream to the \<^verbatim>\<open>return\<close>: the
  two functions differ there in the symbol they print and in the label of the statistics.
\<close>

definition read_stream :: "nat \<Rightarrow> string \<Rightarrow> real \<Rightarrow> text_stream \<Rightarrow> (real option \<times> real) io" where
  "read_stream emoji query_type start_time stream =
     and_then (text_stream_loop emoji start_time (chunks stream) None) (\<lambda>(first_token_time, rest).
     and_then (get_final_message rest (ending stream)) (\<lambda>response.
     and_then time_time (\<lambda>t.
     let total_time = t - start_time in
     and_then (print [Txt ''Total response time: '', Fixed 2 total_time, Txt '' seconds'']) (\<lambda>_.
     and_then (print_query_statistics response query_type) (\<lambda>_.
     ret (first_token_time, total_time))))))"

text \<open>The lines \<^verbatim>\<open>print_query_statistics\<close> prints.\<close>

definition statistics_lines :: "api_response \<Rightarrow> string \<Rightarrow> frag list list" where
  "statistics_lines response query_type =
     [[Txt (''\<newline>'' @ query_type @ '' query statistics:'')],
      [Txt (CHR 0x09 # ''Input tokens: '' @ str_int (input_tokens (usage response)))],
      [Txt (CHR 0x09 # ''Output tokens: '' @ str_int (output_tokens (usage response)))],
      [Txt (CHR 0x09 # ''Cache read input tokens: '' @ str_attr (cache_read_input_tokens (usage response)))],
      [Txt (CHR 0x09 # ''Cache creation input tokens: '' @
            str_attr (cache_creation_input_tokens (usage response)))]]"


section \<open>Properties of the store\<close>

lemma lookup_append: "lookup h a = Some ob \<Longrightarrow> lookup (h @ ext) a = Some ob"
  by (auto simp: lookup_def nth_append split: if_splits)

text \<open>More fuel and a longer store do not change the JSON of a value.\<close>

lemma serialize_fuel_mono:
  "serialize_fuel n h x = Some j \<Longrightarrow> serialize_fuel (n + k) (h @ ext) x = Some j"
  "serialize_items n h xs = Some js \<Longrightarrow> serialize_items (n + k) (h @ ext) xs = Some js"
proof (induction n h x and n h xs arbitrary: j and js rule: serialize_fuel_serialize_items.induct)
  case (4 n h a)
  from 4(3) obtain ob where ob: "lookup h a = Some ob"
    by (auto split: option.splits)
  then have ob': "lookup (h @ ext) a = Some ob" by (rule lookup_append)
  show ?case
  proof (cases ob)
    case (ODict kvs)
    with ob 4(3) obtain js where js: "serialize_items n h (map snd kvs) = Some js"
      and j: "j = JDict (zip (map fst kvs) js)" by auto
    from 4(1)[OF ob ODict js] show ?thesis using ob' ODict j by simp
  next
    case (OList xs)
    with ob 4(3) obtain js where js: "serialize_items n h xs = Some js"
      and j: "j = JList js" by auto
    from 4(2)[OF ob OList js] show ?thesis using ob' OList j by simp
  qed
next
  case (6 n h x xs)
  from 6(3) obtain j1 js1 where a: "serialize_fuel n h x = Some j1"
    and b: "serialize_items n h xs = Some js1" and c: "js = j1 # js1"
    by (auto split: option.splits)
  from 6(1)[OF a] 6(2)[OF a b] c show ?case by simp
qed simp_all

lemma serialize_append:
  assumes "serialize h x = Some j"
  shows "serialize (h @ ext) x = Some j"
  using serialize_fuel_mono(1)[of "Suc (length h)" h x j "length ext" ext] assms
  by (simp add: serialize_def)

lemma take_prefix_trans:
  assumes "take (length a) b = a" and "take (length b) c = b" and "length a \<le> length b"
  shows "take (length a) c = a"
proof -
  have "take (length a) c = take (length a) (take (length b) c)"
    using assms(3) by (simp add: min_def)
  with assms(1,2) show ?thesis by simp
qed

lemma take_Suc_snoc:
  assumes "take (Suc (length h)) h1 = h @ [x]"
  shows "take (length h) h1 = h"
proof -
  have "take (length h) h1 = take (length h) (take (Suc (length h)) h1)"
    by (simp add: min_def)
  with assms show ?thesis by simp
qed

text \<open>\<^verbatim>\<open>copy.deepcopy\<close> only adds objects: the store it starts from is a prefix of its result.\<close>

lemma deepcopy_fuel_frame:
  "deepcopy_fuel n x hm = Some (y, h', m') \<Longrightarrow>
     length (fst hm) \<le> length h' \<and> take (length (fst hm)) h' = fst hm"
  "deepcopy_items n xs hm = Some (ys, h', m') \<Longrightarrow>
     length (fst hm) \<le> length h' \<and> take (length (fst hm)) h' = fst hm"
proof (induction n x hm and n xs hm arbitrary: y h' m' and ys h' m'
    rule: deepcopy_fuel_deepcopy_items.induct)
  case (4 n a h m)
  show ?case
  proof (cases "m a")
    case (Some b)
    with 4 show ?thesis by simp
  next
    case None
    note mn = this
    show ?thesis
    proof (cases "lookup h a")
      case None
      with mn 4 show ?thesis by simp
    next
      case (Some ob)
      show ?thesis
      proof (cases ob)
        case (ODict kvs)
        with mn Some 4(3) obtain vs h1 m1 where
          r: "deepcopy_items n (map snd kvs) (h @ [ODict []], m(a \<mapsto> length h)) = Some (vs, h1, m1)"
          and h': "h' = h1[length h := ODict (zip (map fst kvs) vs)]"
          by (auto split: option.splits)
        from 4(1)[OF mn Some ODict r]
        have "length h < length h1" "take (Suc (length h)) h1 = h @ [ODict []]"
          by auto
        then have "take (length h) h1 = h"
          by (simp add: take_Suc_snoc)
        with h' \<open>length h < length h1\<close> show ?thesis by simp
      next
        case (OList xs)
        with mn Some 4(3) obtain vs h1 m1 where
          r: "deepcopy_items n xs (h @ [OList []], m(a \<mapsto> length h)) = Some (vs, h1, m1)"
          and h': "h' = h1[length h := OList vs]"
          by (auto split: option.splits)
        from 4(2)[OF mn Some OList r]
        have "length h < length h1" "take (Suc (length h)) h1 = h @ [OList []]"
          by auto
        then have "take (length h) h1 = h"
          by (simp add: take_Suc_snoc)
        with h' \<open>length h < length h1\<close> show ?thesis by simp
      qed
    qed
  qed
next
  case (6 n x xs hm)
  from 6(3) obtain y1 hm1 ys1 where
    a: "deepcopy_fuel n x hm = Some (y1, hm1)" and b: "deepcopy_items n xs hm1 = Some (ys1, h', m')"
    by (auto split: option.splits)
  from 6(1)[of y1 "fst hm1" "snd hm1"] a
  have 1: "length (fst hm) \<le> length (fst hm1)" "take (length (fst hm)) (fst hm1) = fst hm"
    by auto
  from 6(2)[OF a _ b]
  have 2: "length (fst hm1) \<le> length h'" "take (length (fst hm1)) h' = fst hm1"
    by auto
  from 1 2 show ?case
    using take_prefix_trans[of "fst hm" "fst hm1" h'] by simp
qed simp_all

text \<open>The copy of an object is a new object, the first one the copy creates.\<close>

lemma deepcopy_root:
  assumes "deepcopy h (VRef a) = Some (y, h')"
  shows "y = VRef (length h) \<and> length h < length h' \<and> take (length h) h' = h"
proof -
  from assms obtain ob where ob: "lookup h a = Some ob"
    by (auto simp: deepcopy_def split: option.splits)
  show ?thesis
  proof (cases ob)
    case (ODict kvs)
    with ob assms obtain vs h1 m1 where
      r: "deepcopy_items (length h) (map snd kvs) (h @ [ODict []], [a \<mapsto> length h]) = Some (vs, h1, m1)"
      and y: "y = VRef (length h)" and h': "h' = h1[length h := ODict (zip (map fst kvs) vs)]"
      by (auto simp: deepcopy_def split: option.splits)
    from deepcopy_fuel_frame(2)[OF r]
    have "length h < length h1" "take (Suc (length h)) h1 = h @ [ODict []]" by auto
    with y h' show ?thesis by (simp add: take_Suc_snoc)
  next
    case (OList xs)
    with ob assms obtain vs h1 m1 where
      r: "deepcopy_items (length h) xs (h @ [OList []], [a \<mapsto> length h]) = Some (vs, h1, m1)"
      and y: "y = VRef (length h)" and h': "h' = h1[length h := OList vs]"
      by (auto simp: deepcopy_def split: option.splits)
    from deepcopy_fuel_frame(2)[OF r]
    have "length h < length h1" "take (Suc (length h)) h1 = h @ [OList []]" by auto
    with y h' show ?thesis by (simp add: take_Suc_snoc)
  qed
qed

lemma deepcopy_defaults:
  "deepcopy (module_heap @ rest) DEFAULT_CLIENT_ARGS =
     Some (VRef (Suc (Suc (length rest))), module_heap @ rest @
        [ODict [(''system'', VStr ''You are an expert systems programmer helping analyze database internals.''),
                (''max_tokens'', VInt 4096),
                (''temperature'', VInt 0),
                (''extra_headers'', VRef (Suc (Suc (Suc (length rest)))))],
         extra_headers_obj])"
  by (simp add: deepcopy_def module_heap_def DEFAULT_CLIENT_ARGS_def lookup_def
      default_client_args_obj_def extra_headers_obj_def nth_append list_update_append)

lemma serialize_defaults:
  "serialize (module_heap @ rest) DEFAULT_CLIENT_ARGS = Some (JDict (client_args_json 4096))"
  by (simp add: serialize_def module_heap_def DEFAULT_CLIENT_ARGS_def lookup_def
      default_client_args_obj_def extra_headers_obj_def nth_append client_args_json_def)

section \<open>The probe\<close>

lemma sample_one_token_prefix:
  assumes "sample_one_token env messages s = (r, s')"
  shows "take (length (heap s)) (heap s') = heap s"
proof (cases "deepcopy (heap s) DEFAULT_CLIENT_ARGS")
  case None
  with assms show ?thesis
    by (auto simp: sample_one_token_def and_then_def copy_deepcopy_def)
next
  case (Some yh)
  obtain y h1 where yh: "yh = (y, h1)" by (cases yh)
  from Some yh deepcopy_root[of "heap s" 1 y h1]
  have y: "y = VRef (length (heap s))" and l: "length (heap s) < length h1"
    and t: "take (length (heap s)) h1 = heap s"
    by (auto simp: DEFAULT_CLIENT_ARGS_def)
  from assms Some yh y t show ?thesis
    by (auto simp: sample_one_token_def and_then_def copy_deepcopy_def setitem_def ret_def
        client_messages_create_def split: option.splits pyobj.splits prod.splits sum.splits)
qed

text \<open>
  C9. The probe sends its request with \<^verbatim>\<open>max_tokens\<close> 1 and the other keyword arguments
  as in \<^verbatim>\<open>DEFAULT_CLIENT_ARGS\<close>. A call of \<^verbatim>\<open>sample_one_token\<close> changes no object that
  existed before it, in any store; in a store that holds the module's constants,
  \<^verbatim>\<open>DEFAULT_CLIENT_ARGS\<close> reads the same before and after the call, with \<^verbatim>\<open>max_tokens\<close>
  4096 and its nested \<^verbatim>\<open>extra_headers\<close>.
\<close>

theorem sample_one_token_budget_frame:
  assumes "sample_one_token env messages s = (r, s')"
  shows "take (length (heap s)) (heap s') = heap s \<and>
    (\<forall>rest. heap s = module_heap @ rest \<longrightarrow>
       serialize (heap s) DEFAULT_CLIENT_ARGS = Some (JDict (client_args_json 4096)) \<and>
       serialize (heap s') DEFAULT_CLIENT_ARGS = Some (JDict (client_args_json 4096)) \<and>
       (\<forall>jm. serialize (heap s) messages = Some jm \<longrightarrow>
          (\<exists>t. trace s' = trace s @
             [Request_sent (clock s) Create
                \<lparr>rq_messages = jm, rq_model = MODEL, rq_args = client_args_json 1\<rparr>,
              Response_done t Create])))"
proof (intro conjI allI impI)
  show "take (length (heap s)) (heap s') = heap s"
    using assms by (rule sample_one_token_prefix)
next
  fix rest assume h: "heap s = module_heap @ rest"
  show "serialize (heap s) DEFAULT_CLIENT_ARGS = Some (JDict (client_args_json 4096))"
    by (simp add: h serialize_defaults)
  have p: "take (length (heap s)) (heap s') = heap s"
    using assms by (rule sample_one_token_prefix)
  have "heap s' = take (length (heap s)) (heap s') @ drop (length (heap s)) (heap s')"
    by simp
  with p h have "heap s' = module_heap @ (rest @ drop (length (heap s)) (heap s'))"
    by simp
  then show "serialize (heap s') DEFAULT_CLIENT_ARGS = Some (JDict (client_args_json 4096))"
    using serialize_defaults[of "rest @ drop (length (heap s)) (heap s')"] by simp
  fix jm assume jm: "serialize (heap s) messages = Some jm"
  let ?a = "VRef (Suc (Suc (length rest)))"
  let ?new = "\<lambda>n. [ODict [(''system'', VStr ''You are an expert systems programmer helping analyze database internals.''),
                (''max_tokens'', VInt n),
                (''temperature'', VInt 0),
                (''extra_headers'', VRef (Suc (Suc (Suc (length rest)))))],
         extra_headers_obj]"
  have a: "serialize (module_heap @ rest @ ?new 1) messages = Some jm"
    using serialize_append[OF jm, of "?new 1"] h by simp
  have b: "serialize (module_heap @ rest @ ?new 1) ?a = Some (JDict (client_args_json 1))"
    by (simp add: serialize_def module_heap_def lookup_def extra_headers_obj_def nth_append
        client_args_json_def)
  have c: "copy_deepcopy DEFAULT_CLIENT_ARGS s = (Inr ?a, s\<lparr>heap := module_heap @ rest @ ?new 4096\<rparr>)"
    using h by (simp add: copy_deepcopy_def deepcopy_defaults)
  have st: "setitem ?a ''max_tokens'' (VInt 1) (s\<lparr>heap := module_heap @ rest @ ?new 4096\<rparr>) =
      (Inr (), s\<lparr>heap := module_heap @ rest @ ?new 1\<rparr>)"
    by (simp add: setitem_def lookup_def module_heap_def nth_append list_update_append)
  have br: "build_request (module_heap @ rest @ ?new 1) messages ?a =
      Some \<lparr>rq_messages = jm, rq_model = MODEL, rq_args = client_args_json 1\<rparr>"
    using a b by (simp add: build_request_def)
  from assms show "\<exists>t. trace s' = trace s @
             [Request_sent (clock s) Create
                \<lparr>rq_messages = jm, rq_model = MODEL, rq_args = client_args_json 1\<rparr>,
              Response_done t Create]"
    by (auto simp: sample_one_token_def and_then_def c st client_messages_create_def br ret_def
        split: prod.splits sum.splits)
qed

theorem sample_one_token_budget_frame_witness:
  "take (length module_heap)
      (heap (snd (sample_one_token (fake_env fetch_ok (4, Inr \<lparr>usage = cold_usage\<rparr>) fake_stream)
                   (VStr ''hi'') state0))) = module_heap \<and>
   serialize (heap (snd (sample_one_token (fake_env fetch_ok (4, Inr \<lparr>usage = cold_usage\<rparr>) fake_stream)
                          (VStr ''hi'') state0))) DEFAULT_CLIENT_ARGS =
     Some (JDict (client_args_json 4096)) \<and>
   (\<exists>t. trace (snd (sample_one_token (fake_env fetch_ok (4, Inr \<lparr>usage = cold_usage\<rparr>) fake_stream)
                      (VStr ''hi'') state0)) =
      [Request_sent 0 Create
         \<lparr>rq_messages = JStr ''hi'', rq_model = MODEL, rq_args = client_args_json 1\<rparr>,
       Response_done t Create])"
  using sample_one_token_budget_frame
    [of "fake_env fetch_ok (4, Inr \<lparr>usage = cold_usage\<rparr>) fake_stream" "VStr ''hi''" state0
        "fst (sample_one_token (fake_env fetch_ok (4, Inr \<lparr>usage = cold_usage\<rparr>) fake_stream)
               (VStr ''hi'') state0)"
        "snd (sample_one_token (fake_env fetch_ok (4, Inr \<lparr>usage = cold_usage\<rparr>) fake_stream)
               (VStr ''hi'') state0)"]
  by (simp add: state0_def serialize_def)

section \<open>The comparison report\<close>

text \<open>
  C8. For standard timings \<open>s\<close>, \<open>t\<close> other than zero and speculative timings \<open>p\<close>, \<open>q\<close>, the
  improvement is \<open>(s - p) / s * 100\<close> for the time to first token and
  \<open>(t - q) / t * 100\<close> for the total time.
\<close>

theorem improvement_formula:
  assumes "s \<noteq> 0" and "t \<noteq> 0"
  shows "ttft_improvement (Some s) (Some p) = Inr ((s - p) / s * 100) \<and>
         total_improvement t q = Inr ((t - q) / t * 100)"
  using assms by (simp add: ttft_improvement_def total_improvement_def)

theorem improvement_formula_witness:
  "(2087 / 100 :: real) \<noteq> 0 \<and> (2832 / 100 :: real) \<noteq> 0 \<and>
   ttft_improvement (Some (2087 / 100)) (Some (194 / 100)) =
     Inr ((2087 / 100 - 194 / 100) / (2087 / 100) * 100) \<and>
   total_improvement (2832 / 100) (840 / 100) =
     Inr ((2832 / 100 - 840 / 100) / (2832 / 100) * 100)"
  using improvement_formula [of "2087 / 100" "2832 / 100" "194 / 100" "840 / 100"]
  by simp

section \<open>The Context Loader\<close>

lemma await_gather_Inr:
  "await_gather t0 cs s = (Inr u, s') \<Longrightarrow> \<forall>c\<in>set cs. \<exists>x. snd c = Inr x"
  by (induction t0 cs s rule: await_gather.induct) auto

lemma await_gather_Inl:
  "await_gather t0 cs s = (Inl e, s') \<Longrightarrow>
     \<exists>pre d post. cs = pre @ (d, Inl e) # post \<and> (\<forall>c\<in>set pre. \<exists>x. snd c = Inr x)"
proof (induction t0 cs s rule: await_gather.induct)
  case (1 t0 s)
  then show ?case by simp
next
  case (2 t0 d e' cs s)
  then have "e' = e" by simp
  then show ?case
    by (intro exI[of _ "[]"] exI[of _ d] exI[of _ cs]) simp
next
  case (3 t0 d filename content cs s)
  from 3(2) have "await_gather t0 cs
       (s\<lparr>clock := t0 + d, stdout := stdout s @ [[Txt (''Successfully downloaded '' @ filename)]]\<rparr>) = (Inl e, s')"
    by simp
  from 3(1)[OF this] obtain pre d' post where
    cs: "cs = pre @ (d', Inl e) # post" and pre: "\<forall>c\<in>set pre. \<exists>x. snd c = Inr x" by blast
  have "(d, Inr (filename, content)) # cs = ((d, Inr (filename, content)) # pre) @ (d', Inl e) # post"
    using cs by simp
  moreover have "\<forall>c\<in>set ((d, Inr (filename, content)) # pre). \<exists>x. snd c = Inr x"
    using pre by simp
  ultimately show ?case
    by (intro exI[of _ "(d, Inr (filename, content)) # pre"] exI[of _ d'] exI[of _ post]) simp
qed

lemma await_gather_frame:
  "await_gather t0 cs s = (r, s') \<Longrightarrow> heap s' = heap s \<and> trace s' = trace s"
  by (induction t0 cs s rule: await_gather.induct) auto

lemma keys_dict_set: "fst ` set (dict_set d k v) = insert k (fst ` set d)"
  by (induction d k v rule: dict_set.induct) auto

lemma distinct_dict_set: "distinct (map fst d) \<Longrightarrow> distinct (map fst (dict_set d k v))"
proof (induction d k v rule: dict_set.induct)
  case (1 k v)
  show ?case by simp
next
  case (2 k' v' kvs k v)
  show ?case
  proof (cases "k' = k")
    case True
    with 2(2) show ?thesis by simp
  next
    case False
    with 2 have "distinct (map fst (dict_set kvs k v))" by simp
    moreover from 2(2) False have "k' \<notin> fst ` set (dict_set kvs k v)"
      by (simp add: keys_dict_set)
    ultimately show ?thesis using False by simp
  qed
qed

lemma foldl_dict_set:
  "fst ` set (foldl (\<lambda>d (k, v). dict_set d k v) acc xs) = fst ` set acc \<union> fst ` set xs \<and>
   (distinct (map fst acc) \<longrightarrow> distinct (map fst (foldl (\<lambda>d (k, v). dict_set d k v) acc xs)))"
proof (induction xs arbitrary: acc)
  case Nil
  show ?case by simp
next
  case (Cons x xs)
  obtain k v where x: "x = (k, v)" by (cases x)
  from Cons[of "dict_set acc k v"] x show ?case
    by (simp add: keys_dict_set distinct_dict_set)
qed

lemma keys_dict: "fst ` set (dict xs) = fst ` set xs" and distinct_dict: "distinct (map fst (dict xs))"
  using foldl_dict_set[of "[]" xs] by (simp_all add: dict_def)

lemma download_file_name:
  "snd (download_file env fu) = Inr x \<Longrightarrow> fst x = fst fu"
  by (cases fu) (auto simp: download_file_def split: prod.splits sum.splits if_splits)

lemma results_of_names:
  "\<forall>fu\<in>set sources. \<exists>x. snd (download_file env fu) = Inr x \<Longrightarrow>
     map fst (results_of (map (download_file env) sources)) = map fst sources"
proof (induction sources)
  case Nil
  show ?case by (simp add: results_of_def)
next
  case (Cons fu sources)
  then obtain x where x: "snd (download_file env fu) = Inr x" by auto
  obtain d where d: "download_file env fu = (d, Inr x)" using x by (cases "download_file env fu") auto
  from Cons have "map fst (results_of (map (download_file env) sources)) = map fst sources" by simp
  with d download_file_name[OF x] show ?case by (simp add: results_of_def)
qed

lemma download_file_ok_iff:
  "(\<exists>x. snd (download_file env fu) = Inr x) \<longleftrightarrow>
   (\<exists>response. snd (http_get env (snd fu)) = Inr response \<and>
      200 \<le> status_code response \<and> status_code response \<le> 299)"
  by (cases fu) (auto simp: download_file_def is_success_def split: prod.splits sum.splits)

lemma get_sqlite_sources_cases:
  assumes run: "get_sqlite_sources sources env s = (r, s')"
  shows "(case r of
            Inr source_files \<Rightarrow>
              set (map fst source_files) = set (map fst sources) \<and>
              distinct (map fst source_files) \<and>
              (\<forall>fu\<in>set sources. \<exists>x. snd (download_file env fu) = Inr x)
          | Inl e \<Rightarrow>
              (\<exists>fu\<in>set sources. snd (download_file env fu) = Inl e \<and>
                 (\<forall>fu'\<in>set sources. (\<exists>e'. snd (download_file env fu') = Inl e') \<longrightarrow>
                    fst (download_file env fu) \<le> fst (download_file env fu'))))"
proof -
  let ?tasks = "map (download_file env) sources"
  let ?s1 = "s\<lparr>stdout := stdout s @ [[Txt ''Downloading SQLite source files...'']]\<rparr>"
  obtain r1 s1 where g: "await_gather (clock s) (sort_key fst ?tasks) ?s1 = (r1, s1)"
    by (cases "await_gather (clock s) (sort_key fst ?tasks) ?s1")
  show ?thesis
  proof (cases r1)
    case (Inl e)
    with run g have r: "r = Inl e"
      by (simp add: get_sqlite_sources_def and_then_def print_def time_time_def Let_def)
    from await_gather_Inl[OF g[unfolded Inl]] obtain pre d post where
      cs: "sort_key fst ?tasks = pre @ (d, Inl e) # post" and pre: "\<forall>c\<in>set pre. \<exists>x. snd c = Inr x"
      by blast
    have "(d, Inl e) \<in> set (sort_key fst ?tasks)" using cs by simp
    then have "(d, Inl e) \<in> set ?tasks" by simp
    then obtain fu where fu: "fu \<in> set sources" "download_file env fu = (d, Inl e)" by auto
    have "sorted (map fst (sort_key fst ?tasks))" by (rule sorted_sort_key)
    with cs have le: "\<forall>c\<in>set post. d \<le> fst c" by (simp add: sorted_append)
    have "\<forall>fu'\<in>set sources. (\<exists>e'. snd (download_file env fu') = Inl e') \<longrightarrow> d \<le> fst (download_file env fu')"
    proof (intro ballI impI)
      fix fu' assume a: "fu' \<in> set sources" and b: "\<exists>e'. snd (download_file env fu') = Inl e'"
      from a have "download_file env fu' \<in> set (sort_key fst ?tasks)" by simp
      with cs have "download_file env fu' \<in> set pre \<or> download_file env fu' = (d, Inl e) \<or> download_file env fu' \<in> set post"
        by auto
      with pre b le show "d \<le> fst (download_file env fu')" by auto
    qed
    with fu r show ?thesis by (auto intro!: bexI[of _ fu])
  next
    case (Inr u)
    from await_gather_Inr[OF g[unfolded Inr]] have ok: "\<forall>fu\<in>set sources. \<exists>x. snd (download_file env fu) = Inr x"
      by simp
    from run g Inr have r: "r = Inr (dict (results_of ?tasks))"
      by (auto simp: get_sqlite_sources_def and_then_def print_def time_time_def ret_def Let_def)
    from results_of_names[OF ok] have "fst ` set (results_of ?tasks) = fst ` set sources"
      by (metis set_map)
    then have "fst ` set (dict (results_of ?tasks)) = fst ` set sources"
      by (simp only: keys_dict)
    with r ok distinct_dict[of "results_of ?tasks"] show ?thesis by simp
  qed
qed

text \<open>
  C4. The Context Loader returns a dictionary whose keys are exactly the requested names
  when every download succeeds, and otherwise raises the error of the download that fails
  first in time; an error is all it returns then. A download fails when the transport
  raises (a timeout among others) or the status is not a success.
\<close>

theorem get_sqlite_sources_all_or_nothing:
  assumes run: "get_sqlite_sources sources env s = (r, s')"
  shows "(case r of
            Inr source_files \<Rightarrow>
              set (map fst source_files) = set (map fst sources) \<and>
              distinct (map fst source_files) \<and>
              (\<forall>fu\<in>set sources. \<exists>x. snd (download_file env fu) = Inr x)
          | Inl e \<Rightarrow>
              (\<exists>fu\<in>set sources. snd (download_file env fu) = Inl e \<and>
                 (\<forall>fu'\<in>set sources. (\<exists>e'. snd (download_file env fu') = Inl e') \<longrightarrow>
                    fst (download_file env fu) \<le> fst (download_file env fu')))) \<and>
         (\<forall>fu\<in>set sources.
            (\<exists>x. snd (download_file env fu) = Inr x) \<longleftrightarrow>
            (\<exists>response. snd (http_get env (snd fu)) = Inr response \<and>
               200 \<le> status_code response \<and> status_code response \<le> 299))"
  using get_sqlite_sources_cases[OF run] download_file_ok_iff[of env]
  by blast

theorem get_sqlite_sources_all_or_nothing_witness:
  "fst (get_sqlite_sources three_sources (fake_env fetch_mixed (4, Inl ConnectError) fake_stream) state0) =
     Inl TimeoutException \<and>
   download_file (fake_env fetch_mixed (4, Inl ConnectError) fake_stream) (''c.h'', ''u3'') =
     (2, Inl TimeoutException) \<and>
   download_file (fake_env fetch_mixed (4, Inl ConnectError) fake_stream) (''a.h'', ''u1'') =
     (3, Inl (HTTPStatusError 404)) \<and>
   download_file (fake_env fetch_mixed (4, Inl ConnectError) fake_stream) (''b.h'', ''u2'') =
     (1, Inr (''b.h'', ''ok''))"
  using get_sqlite_sources_all_or_nothing
    [of three_sources "fake_env fetch_mixed (4, Inl ConnectError) fake_stream" state0
        "fst (get_sqlite_sources three_sources (fake_env fetch_mixed (4, Inl ConnectError) fake_stream) state0)"
        "snd (get_sqlite_sources three_sources (fake_env fetch_mixed (4, Inl ConnectError) fake_stream) state0)"]
  by (simp add: get_sqlite_sources_def and_then_def print_def time_time_def three_sources_def
      fake_env_def fetch_mixed_def download_file_def is_success_def state0_def)

text \<open>
  C10. With no resource to fetch, \<^verbatim>\<open>get_sqlite_sources\<close> succeeds and returns the empty
  dictionary; \<^verbatim>\<open>create_initial_message\<close> then raises \<^verbatim>\<open>KeyError('btree.h')\<close>.
\<close>

theorem empty_resource_set:
  "get_sqlite_sources [] env s =
     (Inr [], s\<lparr>stdout := stdout s @ [[Txt ''Downloading SQLite source files...''],
                                      [Txt ''Downloaded 0 files in '', Fixed 2 0, Txt '' seconds'']]\<rparr>) \<and>
   create_initial_message [] env s =
     (Inl (KeyError ''btree.h''),
      s\<lparr>stdout := stdout s @ [[Txt ''Downloading SQLite source files...''],
                              [Txt ''Downloaded 0 files in '', Fixed 2 0, Txt '' seconds'']]\<rparr>)"
  by (simp add: create_initial_message_def get_sqlite_sources_def and_then_def print_def time_time_def
      ret_def dict_lookup_def results_of_def dict_def str_nat.simps digit_char_def)

section \<open>Runs of the demonstrations\<close>

lemma get_sqlite_sources_frame:
  assumes "get_sqlite_sources sources env s = (r, s')"
  shows "heap s' = heap s \<and> trace s' = trace s"
proof -
  let ?tasks = "map (download_file env) sources"
  let ?s1 = "s\<lparr>stdout := stdout s @ [[Txt ''Downloading SQLite source files...'']]\<rparr>"
  obtain r1 s1 where g: "await_gather (clock s) (sort_key fst ?tasks) ?s1 = (r1, s1)"
    by (cases "await_gather (clock s) (sort_key fst ?tasks) ?s1")
  from await_gather_frame[OF g] have "heap s1 = heap s" "trace s1 = trace s" by simp_all
  with assms g show ?thesis
    by (cases r1) (auto simp: get_sqlite_sources_def and_then_def print_def time_time_def ret_def Let_def)
qed

lemma create_initial_message_result:
  assumes "create_initial_message sources env s = (r, s1)"
  shows "trace s1 = trace s \<and>
    (case r of
       Inl e \<Rightarrow> heap s1 = heap s
     | Inr im \<Rightarrow> \<exists>tx. im = VRef (length (heap s) + 3) \<and>
                      heap s1 = heap s @ context_objects (length (heap s)) tx)"
proof -
  obtain r0 s0 where g: "get_sqlite_sources sources env s = (r0, s0)"
    by (cases "get_sqlite_sources sources env s")
  from get_sqlite_sources_frame[OF g] have f: "heap s0 = heap s" "trace s0 = trace s" by simp_all
  show ?thesis
  proof (cases r0)
    case (Inl e)
    with assms g f show ?thesis by (auto simp: create_initial_message_def and_then_def)
  next
    case (Inr files)
    with assms g f show ?thesis
      by (auto simp: create_initial_message_def and_then_def time_time_def dict_lookup_def
          new_object_def ret_def Let_def context_objects_def split: option.splits)
  qed
qed


lemma deepcopy_message:
  assumes "n = length pre" and "a = length pre + 3" and "k = length pre + 4 + length post"
  shows "deepcopy (pre @ context_objects n tx @ post) (VRef a) =
           Some (VRef k, pre @ context_objects n tx @ post @ message_copy k tx [])"
  using assms
  by (simp add: deepcopy_def context_objects_def message_copy_def lookup_def nth_append
      list_update_append)

lemma serialize_message:
  assumes "n = length pre" and "a = length pre + 3"
  shows "serialize (pre @ context_objects n tx @ post) (VRef a) = Some (message_json [context_block tx])"
  using assms
  by (simp add: serialize_def context_objects_def lookup_def nth_append message_json_def context_block_def)


lemma length_module_heap [simp]: "length module_heap = 2"
  by (simp add: module_heap_def)

lemma length_context_objects [simp]: "length (context_objects n tx) = 4"
  by (simp add: context_objects_def)

lemma length_args_copy [simp]: "length (args_copy k m) = 2"
  by (simp add: args_copy_def)

lemma length_message_copy [simp]: "length (message_copy k tx extra) = 4"
  by (simp add: message_copy_def)

lemma sample_one_token_run:
  assumes h: "take 2 (heap s) = module_heap" and jm: "serialize (heap s) messages = Some jm"
  shows "sample_one_token env messages s =
     (map_sum id (\<lambda>_. ()) (snd (messages_create env \<lparr>rq_messages = jm, rq_model = MODEL, rq_args = client_args_json 1\<rparr>)),
      s\<lparr>heap := heap s @ args_copy (length (heap s)) 1,
        clock := clock s + fst (messages_create env \<lparr>rq_messages = jm, rq_model = MODEL, rq_args = client_args_json 1\<rparr>),
        trace := trace s @
          [Request_sent (clock s) Create \<lparr>rq_messages = jm, rq_model = MODEL, rq_args = client_args_json 1\<rparr>,
           Response_done (clock s + fst (messages_create env \<lparr>rq_messages = jm, rq_model = MODEL, rq_args = client_args_json 1\<rparr>)) Create]\<rparr>)"
proof -
  define rest where "rest = drop 2 (heap s)"
  have hs: "heap s = module_heap @ rest"
    using h append_take_drop_id[of 2 "heap s"] by (simp add: rest_def)
  have l: "length (heap s) = Suc (Suc (length rest))" by (simp add: hs)
  have c: "copy_deepcopy DEFAULT_CLIENT_ARGS s =
      (Inr (VRef (length (heap s))), s\<lparr>heap := heap s @ args_copy (length (heap s)) 4096\<rparr>)"
    by (simp add: copy_deepcopy_def hs deepcopy_defaults args_copy_def)
  have st: "setitem (VRef (length (heap s))) ''max_tokens'' (VInt 1)
       (s\<lparr>heap := heap s @ args_copy (length (heap s)) 4096\<rparr>) =
      (Inr (), s\<lparr>heap := heap s @ args_copy (length (heap s)) 1\<rparr>)"
    by (simp add: setitem_def lookup_def args_copy_def)
  have a: "serialize (heap s @ args_copy (length (heap s)) 1) messages = Some jm"
    by (rule serialize_append[OF jm])
  have b: "serialize (heap s @ args_copy (length (heap s)) 1) (VRef (length (heap s))) =
      Some (JDict (client_args_json 1))"
    by (simp add: serialize_def lookup_def args_copy_def extra_headers_obj_def nth_append
        client_args_json_def)
  have br: "build_request (heap s @ args_copy (length (heap s)) 1) messages (VRef (length (heap s))) =
      Some \<lparr>rq_messages = jm, rq_model = MODEL, rq_args = client_args_json 1\<rparr>"
    using a b by (simp add: build_request_def)
  show ?thesis
    by (simp add: sample_one_token_def and_then_def c st client_messages_create_def br ret_def
        split: prod.splits sum.splits)
qed



lemma take_module_heap [simp]: "take 2 (module_heap @ X) = module_heap"
  by (simp add: module_heap_def)

lemma serialize_probe_messages:
  assumes "n = length rest + 2" and "a = length rest + 5" and "b = length rest + 6"
  shows "serialize (module_heap @ rest @ context_objects n tx @ OList [VRef a] # post) (VRef b) =
           Some (JList [message_json [context_block tx]])"
  using assms
  by (simp add: serialize_def context_objects_def lookup_def nth_append message_json_def
      context_block_def)

lemma deepcopy_message_module:
  assumes "n = length rest + 2" and "a = length rest + 5"
  shows "deepcopy (module_heap @ rest @ context_objects n tx @ post) (VRef a) =
           Some (VRef (length rest + 6 + length post),
                 module_heap @ rest @ context_objects n tx @ post @
                 message_copy (length rest + 6 + length post) tx [])"
  using deepcopy_message[of n "module_heap @ rest" a "length rest + 6 + length post" post tx] assms
  by simp

lemma serialize_fuel_numeral:
  "serialize_fuel (numeral k + n) h x = serialize_fuel (Suc (pred_numeral k + n)) h x"
  "serialize_items (numeral k + n) h xs = serialize_items (Suc (pred_numeral k + n)) h xs"
  by (simp_all add: numeral_eq_Suc)

section \<open>Reading the stream\<close>

lemma strip_empty_iff: "strip txt = [] \<longleftrightarrow> (\<forall>c\<in>set txt. isspace c)"
proof
  assume "strip txt = []"
  then have a: "\<forall>c\<in>set (dropWhile isspace txt). isspace c"
    by (simp add: strip_def dropWhile_eq_Nil_conv)
  have "dropWhile isspace txt = []"
  proof (cases "dropWhile isspace txt")
    case Nil
    then show ?thesis .
  next
    case (Cons x xs)
    then have "\<not> isspace x" using hd_dropWhile[of isspace "txt"] by auto
    with a Cons show ?thesis by simp
  qed
  then show "\<forall>c\<in>set txt. isspace c" by (simp add: dropWhile_eq_Nil_conv)
next
  assume "\<forall>c\<in>set txt. isspace c"
  then have "dropWhile isspace txt = []" by (simp add: dropWhile_eq_Nil_conv)
  then show "strip txt = []" unfolding strip_def by (simp only: rev.simps dropWhile.simps)
qed

lemma text_stream_loop_blank:
  "\<forall>c\<in>set cs. strip (snd c) = [] \<Longrightarrow>
     text_stream_loop emoji st (cs @ rest) None s =
     text_stream_loop emoji st rest None (s\<lparr>clock := clock s + sum_list (map fst cs)\<rparr>)"
proof (induction cs arbitrary: s)
  case Nil
  show ?case by simp
next
  case (Cons c cs)
  obtain d tx where c: "c = (d, tx)" by (cases c)
  from Cons.prems c have b: "strip tx = []" and r: "\<forall>c\<in>set cs. strip (snd c) = []" by auto
  from Cons.IH[OF r, of "s\<lparr>clock := clock s + d\<rparr>"] b c show ?case
    by (simp add: add.assoc)
qed

lemma print_query_statistics_run:
  "print_query_statistics response query_type s =
     (Inr (), s\<lparr>stdout := stdout s @ statistics_lines response query_type\<rparr>)"
  by (simp add: print_query_statistics_def and_then_def print_def statistics_lines_def)

lemma text_stream_loop_total:
  "\<exists>ftt rs out. text_stream_loop emoji st cs ftt0 s =
      (Inr (ftt, rs), s\<lparr>clock := clock s + sum_list (map fst cs) - sum_list (map fst rs),
                        stdout := out\<rparr>)"
proof (induction cs arbitrary: s)
  case Nil
  have "s = s\<lparr>clock := clock s, stdout := stdout s\<rparr>" by simp
  then show ?case by (intro exI[of _ ftt0] exI[of _ "[]"] exI[of _ "stdout s"]) simp
next
  case (Cons c cs)
  obtain d tx where c: "c = (d, tx)" by (cases c)
  show ?case
  proof (cases "ftt0 = None \<and> strip tx \<noteq> []")
    case True
    then show ?thesis using c
      by (intro exI[of _ "Some (clock s + d - st)"] exI[of _ cs]
          exI[of _ "stdout s @ [[Txt ''\<newline>'', Uni emoji, Txt '' Time to first token: '',
                                  Fixed 2 (clock s + d - st), Txt '' seconds'']]"]) simp
  next
    case False
    from Cons[of "s\<lparr>clock := clock s + d\<rparr>"] obtain ftt rs out where
      "text_stream_loop emoji st cs ftt0 (s\<lparr>clock := clock s + d\<rparr>) =
        (Inr (ftt, rs), s\<lparr>clock := clock s + d + sum_list (map fst cs) - sum_list (map fst rs),
                          stdout := out\<rparr>)"
      by auto
    with False c show ?thesis
      by (intro exI[of _ ftt] exI[of _ rs] exI[of _ out]) (auto simp: add.assoc)
  qed
qed

lemma read_stream_run:
  assumes "text_stream_loop emoji st (chunks stream) None s = (Inr (ftt, rs), s2)"
  shows "read_stream emoji query_type st stream s =
     (case snd (ending stream) of
        Inl e \<Rightarrow> Inl e
      | Inr response \<Rightarrow>
          Inr (ftt, clock s + sum_list (map fst (chunks stream)) + fst (ending stream) - st),
      s\<lparr>clock := clock s + sum_list (map fst (chunks stream)) + fst (ending stream),
        trace := trace s @
          [Response_done (clock s + sum_list (map fst (chunks stream)) + fst (ending stream)) Stream],
        stdout :=
          (case snd (ending stream) of
             Inl e \<Rightarrow> stdout s2
           | Inr response \<Rightarrow>
               stdout s2 @
               [Txt ''Total response time: '',
                Fixed 2 (clock s + sum_list (map fst (chunks stream)) + fst (ending stream) - st),
                Txt '' seconds''] # statistics_lines response query_type)\<rparr>)"
proof -
  from text_stream_loop_total[of emoji st "chunks stream" None s] assms obtain out where
    s2: "s2 = s\<lparr>clock := clock s + sum_list (map fst (chunks stream)) - sum_list (map fst rs),
                stdout := out\<rparr>"
    by auto
  show ?thesis
  proof (cases "snd (ending stream)")
    case (Inl e)
    with assms s2 show ?thesis
      by (simp add: read_stream_def and_then_def get_final_message_def)
  next
    case (Inr response)
    with assms s2 show ?thesis
      by (simp add: read_stream_def and_then_def get_final_message_def time_time_def print_def
          print_query_statistics_run ret_def Let_def)
  qed
qed

lemma speculative_probe_ok:
  assumes cim: "create_initial_message SQLITE_SOURCES env s = (Inr im, s1)"
    and im: "im = VRef (length rest + 5)"
    and h1: "heap s1 = module_heap @ rest @ context_objects (length rest + 2) tx"
    and pr: "messages_create env (probe_request tx) = (dp, Inr resp)"
  shows "speculative_prompt_caching_demo env s =
     read_stream 0x1F680 ''Speculative Caching'' (max (clock s1 + 3) (clock s1 + dp))
       (messages_stream env (final_request tx))
       (s1\<lparr>stdout := stdout s1 @
             [[Txt ''User is typing their question...''],
              [Uni 0x1F525, Txt '' Starting cache warming in background...''],
              [Txt (''User submitted: '' @ user_question)],
              [Uni 0x2705, Txt '' Cache warming completed!''],
              [Txt ''\<newline>Sending request to API (with warm cache)...'']],
           heap := heap s1 @ OList [im] # args_copy (length rest + 7) 1 @
                   final_objects (length rest + 9) tx,
           clock := max (clock s1 + 3) (clock s1 + dp) +
                    open_delay (messages_stream env (final_request tx)),
           trace := trace s1 @
             [Request_sent (clock s1) Create (probe_request tx),
              Response_done (clock s1 + dp) Create,
              Timer_fired (clock s1 + 3),
              Request_sent (max (clock s1 + 3) (clock s1 + dp)) Stream (final_request tx)]\<rparr>)"
  unfolding read_stream_def
  apply (simp add: speculative_prompt_caching_demo_def
      and_then_def[of "create_initial_message SQLITE_SOURCES env"] cim)
  apply (simp add: and_then_def[of "print l" for l] and_then_def[of "new_object l" for l]
      print_def new_object_def h1 im)
  apply (simp add: and_then_def[of "asyncio_create_task c" for c] asyncio_create_task_def
      sample_one_token_run[of _ _ "JList [message_json [context_block tx]]"]
      serialize_probe_messages pr[unfolded probe_request_def])
  apply (simp add: and_then_def[of "asyncio_sleep c" for c] asyncio_sleep_def
      and_then_def[of "print l" for l] print_def and_then_def[of "await_task l" for l]
      await_task_def)
  apply (simp add: and_then_def[of "copy_deepcopy c" for c] copy_deepcopy_def
      deepcopy_message_module)
  apply (simp add: and_then_def[of "getitem c k" for c k] getitem_def lookup_def nth_append
      message_copy_def and_then_def[of "new_object l" for l] new_object_def
      and_then_def[of "list_append c k" for c k] list_append_def list_update_append
      and_then_def[of "print l" for l] print_def and_then_def[of time_time] time_time_def)
  apply (simp add: and_then_def[of "client_messages_stream e m a" for e m a]
      client_messages_stream_def build_request_def serialize_defaults)
  apply (simp add: serialize_def serialize_fuel_numeral lookup_def nth_append question_block_def
      context_block_def message_json_def context_objects_def args_copy_def final_request_def
      probe_request_def question_json_def final_objects_def message_copy_def add.commute)
  done


lemma speculative_probe_fails:
  assumes cim: "create_initial_message SQLITE_SOURCES env s = (Inr im, s1)"
    and im: "im = VRef (length rest + 5)"
    and h1: "heap s1 = module_heap @ rest @ context_objects (length rest + 2) tx"
    and pr: "messages_create env (probe_request tx) = (dp, Inl e)"
  shows "speculative_prompt_caching_demo env s =
     (Inl e,
      s1\<lparr>trace := trace s1 @
             [Request_sent (clock s1) Create (probe_request tx),
              Response_done (clock s1 + dp) Create,
              Timer_fired (clock s1 + 3)],
          clock := max (clock s1 + 3) (clock s1 + dp),
          stdout := stdout s1 @
             [[Txt ''User is typing their question...''],
              [Uni 0x1F525, Txt '' Starting cache warming in background...''],
              [Txt (''User submitted: '' @ user_question)]],
          heap := heap s1 @ OList [im] # args_copy (length rest + 7) 1\<rparr>)"
  apply (simp add: speculative_prompt_caching_demo_def
      and_then_def[of "create_initial_message SQLITE_SOURCES env"] cim)
  apply (simp add: and_then_def[of "print l" for l] and_then_def[of "new_object l" for l]
      print_def new_object_def h1 im)
  apply (simp add: and_then_def[of "asyncio_create_task c" for c] asyncio_create_task_def
      sample_one_token_run[of _ _ "JList [message_json [context_block tx]]"]
      serialize_probe_messages pr[unfolded probe_request_def])
  apply (simp add: and_then_def[of "asyncio_sleep c" for c] asyncio_sleep_def
      and_then_def[of "print l" for l] print_def and_then_def[of "await_task l" for l]
      await_task_def probe_request_def add.commute)
  done

lemma speculative_context_fails:
  assumes cim: "create_initial_message SQLITE_SOURCES env s = (Inl e, s1)"
  shows "speculative_prompt_caching_demo env s = (Inl e, s1)"
  by (simp add: speculative_prompt_caching_demo_def
      and_then_def[of "create_initial_message SQLITE_SOURCES env"] cim)


lemma standard_run:
  assumes cim: "create_initial_message SQLITE_SOURCES env s = (Inr im, s1)"
    and im: "im = VRef (length rest + 5)"
    and h1: "heap s1 = module_heap @ rest @ context_objects (length rest + 2) tx"
  shows "standard_prompt_caching_demo env s =
     read_stream 0x1F550 ''Standard Caching'' (clock s1 + 3)
       (messages_stream env (final_request tx))
       (s1\<lparr>stdout := stdout s1 @
             [[Txt ''User is typing their question...''],
              [Txt (''User submitted: '' @ user_question)],
              [Txt ''\<newline>Sending request to API...'']],
           heap := heap s1 @ final_objects (length rest + 6) tx,
           clock := clock s1 + 3 + open_delay (messages_stream env (final_request tx)),
           trace := trace s1 @
             [Timer_fired (clock s1 + 3),
              Request_sent (clock s1 + 3) Stream (final_request tx)]\<rparr>)"
  unfolding read_stream_def
  apply (simp add: standard_prompt_caching_demo_def
      and_then_def[of "create_initial_message SQLITE_SOURCES env"] cim)
  apply (simp add: and_then_def[of "asyncio_sleep c" for c] asyncio_sleep_def
      and_then_def[of "print l" for l] print_def h1 im)
  apply (simp add: and_then_def[of "copy_deepcopy c" for c] copy_deepcopy_def
      h1 deepcopy_message_module[where post = "[]", simplified])
  apply (simp add: and_then_def[of "getitem c k" for c k] getitem_def lookup_def nth_append
      message_copy_def and_then_def[of "new_object l" for l] new_object_def
      and_then_def[of "list_append c k" for c k] list_append_def list_update_append
      and_then_def[of "print l" for l] print_def and_then_def[of time_time] time_time_def)
  apply (simp add: and_then_def[of "client_messages_stream e m a" for e m a]
      client_messages_stream_def build_request_def serialize_defaults)
  apply (simp add: serialize_def serialize_fuel_numeral lookup_def nth_append question_block_def
      context_block_def message_json_def context_objects_def args_copy_def final_request_def
      probe_request_def question_json_def final_objects_def message_copy_def add.commute)
  done

section \<open>The speculative orchestrator\<close>

lemma context_built:
  assumes h: "heap s = module_heap @ rest"
    and cim: "create_initial_message sources env s = (Inr im, s1)"
  obtains tx where "im = VRef (length rest + 5)"
    and "heap s1 = module_heap @ rest @ context_objects (length rest + 2) tx"
    and "trace s1 = trace s"
proof -
  from create_initial_message_result[OF cim] h obtain tx where
    "im = VRef (length (module_heap @ rest) + 3)"
    "heap s1 = (module_heap @ rest) @ context_objects (length (module_heap @ rest)) tx"
    "trace s1 = trace s"
    by auto
  then have "im = VRef (length rest + 5)"
    "heap s1 = module_heap @ rest @ context_objects (length rest + 2) tx" "trace s1 = trace s"
    by (simp_all add: add.commute)
  then show thesis by (rule that)
qed

lemma strftime_fake_clock:
  assumes "0 \<le> t" and "t < 1"
  shows "strftime (fake_clock t) = ''2025-01-02 12:00:00''"
proof -
  from assms have "\<lfloor>t\<rfloor> = 0" by (simp add: floor_eq_iff)
  then show ?thesis
    by (simp add: strftime_def fake_clock_def zfill_def str_nat.simps digit_char_def)
qed

lemma create_initial_message_fake:
  assumes "0 \<le> clock s" and "clock s < 9 / 10"
  shows "create_initial_message SQLITE_SOURCES (fake_env fetch_ok p st) s =
     (Inr (VRef (length (heap s) + 3)),
      s\<lparr>clock := clock s + 1 / 10,
        stdout := stdout s @
          [[Txt ''Downloading SQLite source files...''],
           [Txt ''Successfully downloaded btree.h''],
           [Txt ''Successfully downloaded btree.c''],
           [Txt ''Downloaded 2 files in '', Fixed 2 (1 / 10), Txt '' seconds'']],
        heap := heap s @ context_objects (length (heap s)) fake_text\<rparr>)"
proof -
  have g: "get_sqlite_sources SQLITE_SOURCES (fake_env fetch_ok p st) s =
     (Inr [(''btree.h'', ''int x;''), (''btree.c'', ''int x;'')],
      s\<lparr>clock := clock s + 1 / 10,
        stdout := stdout s @
          [[Txt ''Downloading SQLite source files...''],
           [Txt ''Successfully downloaded btree.h''],
           [Txt ''Successfully downloaded btree.c''],
           [Txt ''Downloaded 2 files in '', Fixed 2 (1 / 10), Txt '' seconds'']]\<rparr>)"
    by (simp add: get_sqlite_sources_def and_then_def print_def time_time_def ret_def
        SQLITE_SOURCES_def fake_env_def fetch_ok_def download_file_def is_success_def
        results_of_def dict_def str_nat.simps digit_char_def)
  have t: "strftime (datetime_now (fake_env fetch_ok p st) (clock s + 1 / 10)) = ''2025-01-02 12:00:00''"
    using assms strftime_fake_clock[of "clock s + 1 / 10"] by (simp add: fake_env_def)
  show ?thesis
    by (simp add: create_initial_message_def and_then_def[of "get_sqlite_sources a b" for a b] g
        and_then_def[of time_time] time_time_def t Let_def
        and_then_def[of "dict_lookup a b" for a b] dict_lookup_def
        and_then_def[of "new_object a" for a] new_object_def ret_def
        context_objects_def fake_text_def)
qed


lemma speculative_outcome:
  assumes h: "heap s = module_heap @ rest"
    and cim: "create_initial_message SQLITE_SOURCES env s = (Inr im, s1)"
    and run: "speculative_prompt_caching_demo env s = (r, s')"
  obtains (probe_failed) tx dp e where
      "im = VRef (length rest + 5)"
      "heap s1 = module_heap @ rest @ context_objects (length rest + 2) tx"
      "messages_create env (probe_request tx) = (dp, Inl e)"
      "r = Inl e"
      "heap s' = heap s1 @ OList [im] # args_copy (length rest + 7) 1"
      "trace s' = trace s @
         [Request_sent (clock s1) Create (probe_request tx),
          Response_done (clock s1 + dp) Create,
          Timer_fired (clock s1 + 3)]"
  | (sent) tx dp resp ftt rs s3 s4 where
      "im = VRef (length rest + 5)"
      "heap s1 = module_heap @ rest @ context_objects (length rest + 2) tx"
      "messages_create env (probe_request tx) = (dp, Inr resp)"
      "clock s3 = max (clock s1 + 3) (clock s1 + dp) +
                  open_delay (messages_stream env (final_request tx))"
      "text_stream_loop 0x1F680 (max (clock s1 + 3) (clock s1 + dp))
         (chunks (messages_stream env (final_request tx))) None s3 = (Inr (ftt, rs), s4)"
      "r = (case snd (ending (messages_stream env (final_request tx))) of
              Inl e \<Rightarrow> Inl e
            | Inr response \<Rightarrow>
                Inr (ftt, open_delay (messages_stream env (final_request tx)) +
                          sum_list (map fst (chunks (messages_stream env (final_request tx)))) +
                          fst (ending (messages_stream env (final_request tx)))))"
      "heap s' = heap s1 @ OList [im] # args_copy (length rest + 7) 1 @
                   final_objects (length rest + 9) tx"
      "clock s' = clock s3 + sum_list (map fst (chunks (messages_stream env (final_request tx)))) +
                  fst (ending (messages_stream env (final_request tx)))"
      "trace s' = trace s @
         [Request_sent (clock s1) Create (probe_request tx),
          Response_done (clock s1 + dp) Create,
          Timer_fired (clock s1 + 3),
          Request_sent (max (clock s1 + 3) (clock s1 + dp)) Stream (final_request tx),
          Response_done (clock s') Stream]"
      "\<forall>response. snd (ending (messages_stream env (final_request tx))) = Inr response \<longrightarrow>
         (\<exists>out. stdout s' = out @ statistics_lines response ''Speculative Caching'')"
proof -
  from context_built[OF h cim] obtain tx where
    im: "im = VRef (length rest + 5)"
    and h1: "heap s1 = module_heap @ rest @ context_objects (length rest + 2) tx"
    and t1: "trace s1 = trace s"
    by blast
  obtain dp rp where pr: "messages_create env (probe_request tx) = (dp, rp)"
    by (cases "messages_create env (probe_request tx)")
  show thesis
  proof (cases rp)
    case (Inl e)
    from speculative_probe_fails[OF cim im h1 pr[unfolded Inl]] run
    have "r = Inl e"
      "heap s' = heap s1 @ OList [im] # args_copy (length rest + 7) 1"
      "trace s' = trace s @
         [Request_sent (clock s1) Create (probe_request tx),
          Response_done (clock s1 + dp) Create,
          Timer_fired (clock s1 + 3)]"
      by (auto simp: t1)
    with im h1 pr Inl show thesis by (intro probe_failed[of tx dp e]) simp_all
  next
    case (Inr resp)
    let ?stream = "messages_stream env (final_request tx)"
    let ?ts = "max (clock s1 + 3) (clock s1 + dp)"
    define s3 where "s3 =
       s1\<lparr>stdout := stdout s1 @
             [[Txt ''User is typing their question...''],
              [Uni 0x1F525, Txt '' Starting cache warming in background...''],
              [Txt (''User submitted: '' @ user_question)],
              [Uni 0x2705, Txt '' Cache warming completed!''],
              [Txt ''\<newline>Sending request to API (with warm cache)...'']],
           heap := heap s1 @ OList [im] # args_copy (length rest + 7) 1 @
                   final_objects (length rest + 9) tx,
           clock := ?ts + open_delay ?stream,
           trace := trace s1 @
             [Request_sent (clock s1) Create (probe_request tx),
              Response_done (clock s1 + dp) Create,
              Timer_fired (clock s1 + 3),
              Request_sent ?ts Stream (final_request tx)]\<rparr>"
    have c3: "clock s3 = ?ts + open_delay ?stream" by (simp add: s3_def)
    from speculative_probe_ok[OF cim im h1 pr[unfolded Inr]]
    have d: "speculative_prompt_caching_demo env s =
        read_stream 0x1F680 ''Speculative Caching'' ?ts ?stream s3"
      by (simp add: s3_def)
    from text_stream_loop_total[of "0x1F680" ?ts "chunks ?stream" None s3]
    obtain ftt rs s4 where
      l: "text_stream_loop 0x1F680 ?ts (chunks ?stream) None s3 = (Inr (ftt, rs), s4)"
      by blast
    from read_stream_run[OF l, of "''Speculative Caching''"] d run
    have r: "r = (case snd (ending ?stream) of
              Inl e \<Rightarrow> Inl e
            | Inr response \<Rightarrow>
                Inr (ftt, clock s3 + sum_list (map fst (chunks ?stream)) + fst (ending ?stream) - ?ts))"
      and hp: "heap s' = heap s3"
      and cl: "clock s' = clock s3 + sum_list (map fst (chunks ?stream)) + fst (ending ?stream)"
      and tr: "trace s' = trace s3 @ [Response_done (clock s') Stream]"
      and so: "stdout s' =
          (case snd (ending ?stream) of
             Inl e \<Rightarrow> stdout s4
           | Inr response \<Rightarrow>
               stdout s4 @
               [Txt ''Total response time: '',
                Fixed 2 (clock s3 + sum_list (map fst (chunks ?stream)) + fst (ending ?stream) - ?ts),
                Txt '' seconds''] # statistics_lines response ''Speculative Caching'')"
      by auto
    from r have r': "r = (case snd (ending ?stream) of
              Inl e \<Rightarrow> Inl e
            | Inr response \<Rightarrow>
                Inr (ftt, open_delay ?stream + sum_list (map fst (chunks ?stream)) +
                          fst (ending ?stream)))"
      by (simp add: c3 split: sum.splits)
    from hp have hp': "heap s' = heap s1 @ OList [im] # args_copy (length rest + 7) 1 @
                   final_objects (length rest + 9) tx"
      by (simp add: s3_def)
    from tr have tr': "trace s' = trace s @
         [Request_sent (clock s1) Create (probe_request tx),
          Response_done (clock s1 + dp) Create,
          Timer_fired (clock s1 + 3),
          Request_sent ?ts Stream (final_request tx),
          Response_done (clock s') Stream]"
      by (simp add: s3_def t1)
    have so': "\<forall>response. snd (ending ?stream) = Inr response \<longrightarrow>
         (\<exists>out. stdout s' = out @ statistics_lines response ''Speculative Caching'')"
    proof (intro allI impI)
      fix response assume "snd (ending ?stream) = Inr response"
      with so show "\<exists>out. stdout s' = out @ statistics_lines response ''Speculative Caching''"
        by (intro exI[of _ "stdout s4 @
               [[Txt ''Total response time: '',
                Fixed 2 (clock s3 + sum_list (map fst (chunks ?stream)) + fst (ending ?stream) - ?ts),
                Txt '' seconds'']]"]) simp
    qed
    from im h1 pr[unfolded Inr] c3 l r' hp' cl tr' so' show thesis
      by (rule sent[of tx dp resp s3 ftt rs s4])
  qed
qed


lemma standard_outcome:
  assumes h: "heap s = module_heap @ rest"
    and cim: "create_initial_message SQLITE_SOURCES env s = (Inr im, s1)"
    and run: "standard_prompt_caching_demo env s = (r, s')"
  obtains tx ftt rs s3 s4 where
      "im = VRef (length rest + 5)"
      "heap s1 = module_heap @ rest @ context_objects (length rest + 2) tx"
      "clock s3 = clock s1 + 3 + open_delay (messages_stream env (final_request tx))"
      "text_stream_loop 0x1F550 (clock s1 + 3)
         (chunks (messages_stream env (final_request tx))) None s3 = (Inr (ftt, rs), s4)"
      "r = (case snd (ending (messages_stream env (final_request tx))) of
              Inl e \<Rightarrow> Inl e
            | Inr response \<Rightarrow>
                Inr (ftt, open_delay (messages_stream env (final_request tx)) +
                          sum_list (map fst (chunks (messages_stream env (final_request tx)))) +
                          fst (ending (messages_stream env (final_request tx)))))"
      "heap s' = heap s1 @ final_objects (length rest + 6) tx"
      "clock s' = clock s3 + sum_list (map fst (chunks (messages_stream env (final_request tx)))) +
                  fst (ending (messages_stream env (final_request tx)))"
      "trace s' = trace s @
         [Timer_fired (clock s1 + 3),
          Request_sent (clock s1 + 3) Stream (final_request tx),
          Response_done (clock s') Stream]"
      "\<forall>response. snd (ending (messages_stream env (final_request tx))) = Inr response \<longrightarrow>
         (\<exists>out. stdout s' = out @ statistics_lines response ''Standard Caching'')"
proof -
  from context_built[OF h cim] obtain tx where
    im: "im = VRef (length rest + 5)"
    and h1: "heap s1 = module_heap @ rest @ context_objects (length rest + 2) tx"
    and t1: "trace s1 = trace s"
    by blast
  let ?stream = "messages_stream env (final_request tx)"
  let ?ts = "clock s1 + 3"
  define s3 where "s3 =
       s1\<lparr>stdout := stdout s1 @
             [[Txt ''User is typing their question...''],
              [Txt (''User submitted: '' @ user_question)],
              [Txt ''\<newline>Sending request to API...'']],
           heap := heap s1 @ final_objects (length rest + 6) tx,
           clock := ?ts + open_delay ?stream,
           trace := trace s1 @
             [Timer_fired (clock s1 + 3),
              Request_sent (clock s1 + 3) Stream (final_request tx)]\<rparr>"
  have c3: "clock s3 = ?ts + open_delay ?stream" by (simp add: s3_def)
  from standard_run[OF cim im h1]
  have d: "standard_prompt_caching_demo env s =
      read_stream 0x1F550 ''Standard Caching'' ?ts ?stream s3"
    by (simp add: s3_def)
  from text_stream_loop_total[of "0x1F550" ?ts "chunks ?stream" None s3]
  obtain ftt rs s4 where
    l: "text_stream_loop 0x1F550 ?ts (chunks ?stream) None s3 = (Inr (ftt, rs), s4)"
    by blast
  from read_stream_run[OF l, of "''Standard Caching''"] d run
  have r: "r = (case snd (ending ?stream) of
            Inl e \<Rightarrow> Inl e
          | Inr response \<Rightarrow>
              Inr (ftt, clock s3 + sum_list (map fst (chunks ?stream)) + fst (ending ?stream) - ?ts))"
    and hp: "heap s' = heap s3"
    and cl: "clock s' = clock s3 + sum_list (map fst (chunks ?stream)) + fst (ending ?stream)"
    and tr: "trace s' = trace s3 @ [Response_done (clock s') Stream]"
    and so: "stdout s' =
        (case snd (ending ?stream) of
           Inl e \<Rightarrow> stdout s4
         | Inr response \<Rightarrow>
             stdout s4 @
             [Txt ''Total response time: '',
              Fixed 2 (clock s3 + sum_list (map fst (chunks ?stream)) + fst (ending ?stream) - ?ts),
              Txt '' seconds''] # statistics_lines response ''Standard Caching'')"
    by auto
  from r have r': "r = (case snd (ending ?stream) of
            Inl e \<Rightarrow> Inl e
          | Inr response \<Rightarrow>
              Inr (ftt, open_delay ?stream + sum_list (map fst (chunks ?stream)) +
                        fst (ending ?stream)))"
    by (simp add: c3 split: sum.splits)
  from hp have hp': "heap s' = heap s1 @ final_objects (length rest + 6) tx"
    by (simp add: s3_def)
  from tr have tr': "trace s' = trace s @
       [Timer_fired (clock s1 + 3),
        Request_sent (clock s1 + 3) Stream (final_request tx),
        Response_done (clock s') Stream]"
    by (simp add: s3_def t1)
  have so': "\<forall>response. snd (ending ?stream) = Inr response \<longrightarrow>
       (\<exists>out. stdout s' = out @ statistics_lines response ''Standard Caching'')"
  proof (intro allI impI)
    fix response assume "snd (ending ?stream) = Inr response"
    with so show "\<exists>out. stdout s' = out @ statistics_lines response ''Standard Caching''"
      by (intro exI[of _ "stdout s4 @
             [[Txt ''Total response time: '',
              Fixed 2 (clock s3 + sum_list (map fst (chunks ?stream)) + fst (ending ?stream) - ?ts),
              Txt '' seconds'']]"]) simp
  qed
  from im h1 c3 l r' hp' cl tr' so' show thesis
    by (rule that[of tx s3 ftt rs s4])
qed

text \<open>
  C2. In every run of the speculative orchestrator, the final request is sent only after
  the probe call has completed and the think-time wait has elapsed: when both are
  launched at \<open>t0\<close> and the probe completes at \<open>tp\<close>, the final request is sent at
  \<open>max (t0 + 3) tp\<close>, whatever the probe's duration.
\<close>

theorem final_request_after_join:
  assumes h: "heap s = module_heap @ rest"
    and run: "speculative_prompt_caching_demo env s = (r, s')"
  shows "\<exists>evs. trace s' = trace s @ evs \<and>
     (\<forall>ts rq. Request_sent ts Stream rq \<in> set evs \<longrightarrow>
        (\<exists>t0 tp prq. Request_sent t0 Create prq \<in> set evs \<and>
            Response_done tp Create \<in> set evs \<and> Timer_fired (t0 + 3) \<in> set evs \<and>
            tp \<le> ts \<and> t0 + 3 \<le> ts \<and> ts = max (t0 + 3) tp))"
proof -
  obtain r0 s1 where cim: "create_initial_message SQLITE_SOURCES env s = (r0, s1)"
    by (cases "create_initial_message SQLITE_SOURCES env s")
  show ?thesis
  proof (cases r0)
    case (Inl e)
    from speculative_context_fails[OF cim[unfolded Inl]] run create_initial_message_result[OF cim]
    have "trace s' = trace s @ []" by simp
    then show ?thesis by (intro exI[of _ "[]"]) simp
  next
    case (Inr im)
    from h cim[unfolded Inr] run show ?thesis
    proof (cases rule: speculative_outcome)
      case (probe_failed tx dp e)
      then show ?thesis
        by (intro exI[of _ "[Request_sent (clock s1) Create (probe_request tx),
              Response_done (clock s1 + dp) Create, Timer_fired (clock s1 + 3)]"]) simp
    next
      case (sent tx dp resp ftt rs s3 s4)
      let ?evs = "[Request_sent (clock s1) Create (probe_request tx),
          Response_done (clock s1 + dp) Create,
          Timer_fired (clock s1 + 3),
          Request_sent (max (clock s1 + 3) (clock s1 + dp)) Stream (final_request tx),
          Response_done (clock s') Stream]"
      have "\<forall>ts rq. Request_sent ts Stream rq \<in> set ?evs \<longrightarrow>
        (\<exists>t0 tp prq. Request_sent t0 Create prq \<in> set ?evs \<and>
            Response_done tp Create \<in> set ?evs \<and> Timer_fired (t0 + 3) \<in> set ?evs \<and>
            tp \<le> ts \<and> t0 + 3 \<le> ts \<and> ts = max (t0 + 3) tp)"
      proof (intro allI impI)
        fix ts rq assume "Request_sent ts Stream rq \<in> set ?evs"
        then have ts: "ts = max (clock s1 + 3) (clock s1 + dp)" by simp
        show "\<exists>t0 tp prq. Request_sent t0 Create prq \<in> set ?evs \<and>
            Response_done tp Create \<in> set ?evs \<and> Timer_fired (t0 + 3) \<in> set ?evs \<and>
            tp \<le> ts \<and> t0 + 3 \<le> ts \<and> ts = max (t0 + 3) tp"
          using ts
          by (intro exI[of _ "clock s1"] exI[of _ "clock s1 + dp"] exI[of _ "probe_request tx"]) simp
      qed
      with sent(9) show ?thesis by (intro exI[of _ ?evs]) simp
    qed
  qed
qed


lemma Suc_Suc_0: "Suc (Suc 0) = 2"
  by simp

lemma context_objects_inj: "context_objects n tx = context_objects n tx' \<longleftrightarrow> tx = tx'"
  by (simp add: context_objects_def)

lemma fake_context:
  "create_initial_message SQLITE_SOURCES (fake_env fetch_ok p st) state0 =
     (Inr (VRef 5),
      state0\<lparr>clock := 1 / 10,
        stdout :=
          [[Txt ''Downloading SQLite source files...''],
           [Txt ''Successfully downloaded btree.h''],
           [Txt ''Successfully downloaded btree.c''],
           [Txt ''Downloaded 2 files in '', Fixed 2 (1 / 10), Txt '' seconds'']],
        heap := module_heap @ context_objects 2 fake_text\<rparr>)"
  using create_initial_message_fake[of state0 p st]
  by (simp add: state0_def)

lemma fake_speculative_failed:
  "fst (speculative_prompt_caching_demo (fake_env fetch_ok (dp, Inl e) st) state0) = Inl e \<and>
   trace (snd (speculative_prompt_caching_demo (fake_env fetch_ok (dp, Inl e) st) state0)) =
     [Request_sent (1 / 10) Create (probe_request fake_text),
      Response_done (1 / 10 + dp) Create, Timer_fired (31 / 10)]"
proof -
  have pr: "messages_create (fake_env fetch_ok (dp, Inl e) st) (probe_request fake_text) = (dp, Inl e)"
    by (simp add: fake_env_def)
  have "speculative_prompt_caching_demo (fake_env fetch_ok (dp, Inl e) st) state0 =
     (Inl e,
      (state0\<lparr>clock := 1 / 10,
        stdout :=
          [[Txt ''Downloading SQLite source files...''],
           [Txt ''Successfully downloaded btree.h''],
           [Txt ''Successfully downloaded btree.c''],
           [Txt ''Downloaded 2 files in '', Fixed 2 (1 / 10), Txt '' seconds'']],
        heap := module_heap @ context_objects 2 fake_text\<rparr>)
      \<lparr>trace := trace state0 @
             [Request_sent (1 / 10) Create (probe_request fake_text),
              Response_done (1 / 10 + dp) Create,
              Timer_fired (1 / 10 + 3)],
          clock := max (1 / 10 + 3) (1 / 10 + dp),
          stdout :=
             [[Txt ''Downloading SQLite source files...''],
              [Txt ''Successfully downloaded btree.h''],
              [Txt ''Successfully downloaded btree.c''],
              [Txt ''Downloaded 2 files in '', Fixed 2 (1 / 10), Txt '' seconds'']] @
             [[Txt ''User is typing their question...''],
              [Uni 0x1F525, Txt '' Starting cache warming in background...''],
              [Txt (''User submitted: '' @ user_question)]],
          heap := (module_heap @ context_objects 2 fake_text) @ OList [VRef 5] # args_copy (length ([] :: pyobj list) + 7) 1\<rparr>)"
    using speculative_probe_fails[OF fake_context _ _ pr, of "[]"]
    by (simp add: Suc_Suc_0)
  then show ?thesis by (simp add: state0_def)
qed

lemma fake_speculative_trace:
  "\<exists>t. trace (snd (speculative_prompt_caching_demo (fake_env fetch_ok (dp, Inr resp) st) state0)) =
     [Request_sent (1 / 10) Create (probe_request fake_text),
      Response_done (1 / 10 + dp) Create,
      Timer_fired (31 / 10),
      Request_sent (max (31 / 10) (1 / 10 + dp)) Stream (final_request fake_text),
      Response_done t Stream]"
proof -
  let ?E = "fake_env fetch_ok (dp, Inr resp) st"
  have h: "heap state0 = module_heap @ []" by (simp add: state0_def)
  have run: "speculative_prompt_caching_demo ?E state0 =
      (fst (speculative_prompt_caching_demo ?E state0), snd (speculative_prompt_caching_demo ?E state0))"
    by simp
  have pr: "\<And>tx. messages_create ?E (probe_request tx) = (dp, Inr resp)"
    by (simp add: fake_env_def)
  from h fake_context run show ?thesis
  proof (cases rule: speculative_outcome)
    case (probe_failed tx dp' e)
    with pr show ?thesis by simp
  next
    case (sent tx dp' resp' ftt rs s3 s4)
    from sent(2) have "tx = fake_text" by (auto simp: context_objects_inj Suc_Suc_0)
    moreover from sent(3) pr have "dp' = dp" by simp
    ultimately show ?thesis using sent(9) by (simp add: state0_def)
  qed
qed

lemma fake_standard_trace:
  "\<exists>t. trace (snd (standard_prompt_caching_demo (fake_env fetch_ok p st) state0)) =
     [Timer_fired (31 / 10), Request_sent (31 / 10) Stream (final_request fake_text),
      Response_done t Stream]"
proof -
  let ?E = "fake_env fetch_ok p st"
  have h: "heap state0 = module_heap @ []" by (simp add: state0_def)
  have run: "standard_prompt_caching_demo ?E state0 =
      (fst (standard_prompt_caching_demo ?E state0), snd (standard_prompt_caching_demo ?E state0))"
    by simp
  from h fake_context run show ?thesis
  proof (cases rule: standard_outcome)
    case (1 tx ftt rs s3 s4)
    from 1(2) have "tx = fake_text" by (auto simp: context_objects_inj Suc_Suc_0)
    then show ?thesis using 1(8) by (simp add: state0_def)
  qed
qed

theorem final_request_after_join_witness:
  "\<exists>evs. trace (snd (speculative_prompt_caching_demo
                       (fake_env fetch_ok (4, Inr \<lparr>usage = cold_usage\<rparr>) fake_stream) state0)) =
            trace state0 @ evs \<and>
     Request_sent (41 / 10) Stream (final_request fake_text) \<in> set evs \<and>
     (\<exists>t0 tp prq. Request_sent t0 Create prq \<in> set evs \<and>
         Response_done tp Create \<in> set evs \<and> Timer_fired (t0 + 3) \<in> set evs \<and>
         tp \<le> 41 / 10 \<and> t0 + 3 \<le> 41 / 10 \<and> 41 / 10 = max (t0 + 3) tp)"
proof -
  let ?E = "fake_env fetch_ok (4, Inr \<lparr>usage = cold_usage\<rparr>) fake_stream"
  have h: "heap state0 = module_heap @ []" by (simp add: state0_def)
  have run: "speculative_prompt_caching_demo ?E state0 =
      (fst (speculative_prompt_caching_demo ?E state0), snd (speculative_prompt_caching_demo ?E state0))"
    by simp
  from final_request_after_join[OF h run] obtain evs where
    e: "trace (snd (speculative_prompt_caching_demo ?E state0)) = trace state0 @ evs"
    and a: "\<forall>ts rq. Request_sent ts Stream rq \<in> set evs \<longrightarrow>
        (\<exists>t0 tp prq. Request_sent t0 Create prq \<in> set evs \<and>
            Response_done tp Create \<in> set evs \<and> Timer_fired (t0 + 3) \<in> set evs \<and>
            tp \<le> ts \<and> t0 + 3 \<le> ts \<and> ts = max (t0 + 3) tp)"
    by blast
  from fake_speculative_trace[of 4 "\<lparr>usage = cold_usage\<rparr>" fake_stream] e
  have m: "Request_sent (41 / 10) Stream (final_request fake_text) \<in> set evs"
    by (auto simp: state0_def)
  with a have "\<exists>t0 tp prq. Request_sent t0 Create prq \<in> set evs \<and>
         Response_done tp Create \<in> set evs \<and> Timer_fired (t0 + 3) \<in> set evs \<and>
         tp \<le> 41 / 10 \<and> t0 + 3 \<le> 41 / 10 \<and> 41 / 10 = max (t0 + 3) tp"
    by blast
  with e m show ?thesis by blast
qed


text \<open>
  C1 (as amended). A failure of the probe call is fatal for the run: \<^verbatim>\<open>await cache_task\<close>
  raises the probe's error, the run ends with it after the probe request, its completion
  and the think-time wait, and the final request is not issued. A final request is
  issued only in a run whose probe call succeeded.
\<close>

theorem probe_failure_aborts:
  assumes h: "heap s = module_heap @ rest"
    and cim: "create_initial_message SQLITE_SOURCES env s = (Inr im, s1)"
    and run: "speculative_prompt_caching_demo env s = (r, s')"
  shows "\<exists>tx evs. heap s1 = heap s @ context_objects (length (heap s)) tx \<and>
     trace s' = trace s @ evs \<and>
     (\<forall>e. snd (messages_create env (probe_request tx)) = Inl e \<longrightarrow>
        r = Inl e \<and>
        evs = [Request_sent (clock s1) Create (probe_request tx),
               Response_done (clock s1 + fst (messages_create env (probe_request tx))) Create,
               Timer_fired (clock s1 + 3)]) \<and>
     (\<forall>ts rq. Request_sent ts Stream rq \<in> set evs \<longrightarrow>
        (\<exists>resp. snd (messages_create env (probe_request tx)) = Inr resp))"
  using h cim run
proof (cases rule: speculative_outcome)
  case (probe_failed tx dp e)
  then show ?thesis using h
    by (intro exI[of _ tx] exI[of _ "[Request_sent (clock s1) Create (probe_request tx),
          Response_done (clock s1 + dp) Create, Timer_fired (clock s1 + 3)]"])
      (simp add: add.commute)
next
  case (sent tx dp resp ftt rs s3 s4)
  then show ?thesis using h
    by (intro exI[of _ tx] exI[of _ "[Request_sent (clock s1) Create (probe_request tx),
          Response_done (clock s1 + dp) Create,
          Timer_fired (clock s1 + 3),
          Request_sent (max (clock s1 + 3) (clock s1 + dp)) Stream (final_request tx),
          Response_done (clock s') Stream]"])
      (simp add: add.commute)
qed

theorem probe_failure_aborts_witness:
  "\<exists>evs. heap (snd (create_initial_message SQLITE_SOURCES
                 (fake_env fetch_ok (2, Inl (APIError ''overloaded'')) fake_stream) state0)) =
            heap state0 @ context_objects (length (heap state0)) fake_text \<and>
     trace (snd (speculative_prompt_caching_demo
                   (fake_env fetch_ok (2, Inl (APIError ''overloaded'')) fake_stream) state0)) =
       trace state0 @ evs \<and>
     snd (messages_create (fake_env fetch_ok (2, Inl (APIError ''overloaded'')) fake_stream)
            (probe_request fake_text)) = Inl (APIError ''overloaded'') \<and>
     fst (speculative_prompt_caching_demo
            (fake_env fetch_ok (2, Inl (APIError ''overloaded'')) fake_stream) state0) =
       Inl (APIError ''overloaded'') \<and>
     evs = [Request_sent (1 / 10) Create (probe_request fake_text),
            Response_done (21 / 10) Create, Timer_fired (31 / 10)]"
proof -
  let ?E = "fake_env fetch_ok (2, Inl (APIError ''overloaded'')) fake_stream"
  have h: "heap state0 = module_heap @ []" by (simp add: state0_def)
  have run: "speculative_prompt_caching_demo ?E state0 =
      (fst (speculative_prompt_caching_demo ?E state0), snd (speculative_prompt_caching_demo ?E state0))"
    by simp
  from probe_failure_aborts[OF h fake_context run] obtain tx evs where
    a: "module_heap @ context_objects 2 fake_text = heap state0 @ context_objects (length (heap state0)) tx"
    and b: "trace (snd (speculative_prompt_caching_demo ?E state0)) = trace state0 @ evs"
    and c: "\<forall>e. snd (messages_create ?E (probe_request tx)) = Inl e \<longrightarrow>
        fst (speculative_prompt_caching_demo ?E state0) = Inl e \<and>
        evs = [Request_sent (clock (state0\<lparr>clock := 1 / 10\<rparr>)) Create (probe_request tx),
               Response_done (clock (state0\<lparr>clock := 1 / 10\<rparr>) + fst (messages_create ?E (probe_request tx))) Create,
               Timer_fired (clock (state0\<lparr>clock := 1 / 10\<rparr>) + 3)]"
    by auto
  from a have tx: "tx = fake_text" by (auto simp: state0_def context_objects_inj)
  have p: "messages_create ?E (probe_request fake_text) = (2, Inl (APIError ''overloaded''))"
    by (simp add: fake_env_def)
  from c tx p have "fst (speculative_prompt_caching_demo ?E state0) = Inl (APIError ''overloaded'')"
    "evs = [Request_sent (1 / 10) Create (probe_request fake_text),
            Response_done (21 / 10) Create, Timer_fired (31 / 10)]"
    by simp_all
  moreover have "heap (snd (create_initial_message SQLITE_SOURCES ?E state0)) =
      heap state0 @ context_objects (length (heap state0)) fake_text"
    by (subst fake_context) (simp add: state0_def)
  ultimately show ?thesis using b p
    by (intro exI[of _ evs]) simp
qed

text \<open>
  C1 as the specification states it does not hold of the code: here the probe fails after
  2 time units while the service would answer the final request; the run ends with the
  probe's error and sends no final request.
\<close>

theorem probe_failure_counterexample:
  "fst (speculative_prompt_caching_demo
          (fake_env fetch_ok (2, Inl (APIError ''overloaded'')) fake_stream) state0) =
     Inl (APIError ''overloaded'') \<and>
   trace (snd (speculative_prompt_caching_demo
                 (fake_env fetch_ok (2, Inl (APIError ''overloaded'')) fake_stream) state0)) =
     [Request_sent (1 / 10) Create (probe_request fake_text),
      Response_done (21 / 10) Create, Timer_fired (31 / 10)] \<and>
   snd (ending (messages_stream (fake_env fetch_ok (2, Inl (APIError ''overloaded'')) fake_stream)
                  (final_request fake_text))) = Inr \<lparr>usage = warm_usage\<rparr>"
  using fake_speculative_failed[of 2 "APIError ''overloaded''" fake_stream]
  by (simp add: fake_env_def fake_stream_def)

section \<open>The context message\<close>

text \<open>
  C5. The context message is not mutated after its creation and both requests carry it
  unchanged: nothing that is in the store when \<^verbatim>\<open>create_initial_message\<close> returns is
  changed by a run, the message reads the same at the end of the run, the probe sends the
  message with its one content block, and the final request sends a message whose first
  content block is that block and whose second is the question. The question is
  appended to a deep copy, in the speculative and in the standard run.
\<close>

theorem context_message_reused_unchanged:
  assumes h: "heap s = module_heap @ rest"
    and cim: "create_initial_message SQLITE_SOURCES env s = (Inr initial_message, s1)"
    and run: "speculative_prompt_caching_demo env s = (r, s')"
    and run2: "standard_prompt_caching_demo env s = (r2, s2)"
  shows "\<exists>tx evs evs2.
      serialize (heap s1) initial_message = Some (message_json [context_block tx]) \<and>
      take (length (heap s1)) (heap s') = heap s1 \<and>
      serialize (heap s') initial_message = Some (message_json [context_block tx]) \<and>
      trace s' = trace s @ evs \<and>
      (\<forall>t rq. Request_sent t Create rq \<in> set evs \<longrightarrow>
         rq_messages rq = JList [message_json [context_block tx]]) \<and>
      (\<forall>t rq. Request_sent t Stream rq \<in> set evs \<longrightarrow>
         rq_messages rq = JList [message_json [context_block tx, question_json]]) \<and>
      take (length (heap s1)) (heap s2) = heap s1 \<and>
      serialize (heap s2) initial_message = Some (message_json [context_block tx]) \<and>
      trace s2 = trace s @ evs2 \<and>
      (\<forall>t rq. Request_sent t Stream rq \<in> set evs2 \<longrightarrow>
         rq_messages rq = JList [message_json [context_block tx, question_json]])"
proof -
  from context_built[OF h cim] obtain tx where
    im: "initial_message = VRef (length rest + 5)"
    and h1: "heap s1 = module_heap @ rest @ context_objects (length rest + 2) tx"
    by blast
  have ser: "serialize (heap s1) initial_message = Some (message_json [context_block tx])"
    using serialize_message[of "length rest + 2" "module_heap @ rest" "length rest + 5" tx "[]"]
    by (simp add: h1 im)
  have ext: "\<And>x. take (length (heap s1)) (heap s1 @ x) = heap s1 \<and>
      serialize (heap s1 @ x) initial_message = Some (message_json [context_block tx])"
    using serialize_append[OF ser] by simp
  from h cim run2 obtain evs2 where
    std: "take (length (heap s1)) (heap s2) = heap s1"
      "serialize (heap s2) initial_message = Some (message_json [context_block tx])"
      "trace s2 = trace s @ evs2"
      "\<forall>t rq. Request_sent t Stream rq \<in> set evs2 \<longrightarrow>
         rq_messages rq = JList [message_json [context_block tx, question_json]]"
  proof (cases rule: standard_outcome)
    case (1 tx' ftt rs s3 s4)
    from 1(2) h1 have tx': "tx' = tx" by (auto simp: context_objects_inj)
    show ?thesis
    proof (rule that[of "[Timer_fired (clock s1 + 3),
          Request_sent (clock s1 + 3) Stream (final_request tx),
          Response_done (clock s2) Stream]"])
      show "take (length (heap s1)) (heap s2) = heap s1"
        using 1(6) ext by simp
      show "serialize (heap s2) initial_message = Some (message_json [context_block tx])"
        using 1(6) ext by simp
      show "trace s2 = trace s @ [Timer_fired (clock s1 + 3),
          Request_sent (clock s1 + 3) Stream (final_request tx),
          Response_done (clock s2) Stream]"
        using 1(8) tx' by simp
      show "\<forall>t rq. Request_sent t Stream rq \<in> set [Timer_fired (clock s1 + 3),
          Request_sent (clock s1 + 3) Stream (final_request tx),
          Response_done (clock s2) Stream] \<longrightarrow>
         rq_messages rq = JList [message_json [context_block tx, question_json]]"
        by (simp add: final_request_def)
    qed
  qed
  from h cim run obtain evs where
    spec: "take (length (heap s1)) (heap s') = heap s1"
      "serialize (heap s') initial_message = Some (message_json [context_block tx])"
      "trace s' = trace s @ evs"
      "\<forall>t rq. Request_sent t Create rq \<in> set evs \<longrightarrow>
         rq_messages rq = JList [message_json [context_block tx]]"
      "\<forall>t rq. Request_sent t Stream rq \<in> set evs \<longrightarrow>
         rq_messages rq = JList [message_json [context_block tx, question_json]]"
  proof (cases rule: speculative_outcome)
    case (probe_failed tx' dp e)
    from probe_failed(2) h1 have tx': "tx' = tx" by (auto simp: context_objects_inj)
    show ?thesis
    proof (rule that[of "[Request_sent (clock s1) Create (probe_request tx),
          Response_done (clock s1 + dp) Create, Timer_fired (clock s1 + 3)]"])
      show "take (length (heap s1)) (heap s') = heap s1"
        using probe_failed(5) ext by simp
      show "serialize (heap s') initial_message = Some (message_json [context_block tx])"
        using probe_failed(5) ext by simp
      show "trace s' = trace s @ [Request_sent (clock s1) Create (probe_request tx),
          Response_done (clock s1 + dp) Create, Timer_fired (clock s1 + 3)]"
        using probe_failed(6) tx' by simp
    qed (simp_all add: probe_request_def)
  next
    case (sent tx' dp resp ftt rs s3 s4)
    from sent(2) h1 have tx': "tx' = tx" by (auto simp: context_objects_inj)
    show ?thesis
    proof (rule that[of "[Request_sent (clock s1) Create (probe_request tx),
          Response_done (clock s1 + dp) Create,
          Timer_fired (clock s1 + 3),
          Request_sent (max (clock s1 + 3) (clock s1 + dp)) Stream (final_request tx),
          Response_done (clock s') Stream]"])
      show "take (length (heap s1)) (heap s') = heap s1"
        using sent(7) ext by simp
      show "serialize (heap s') initial_message = Some (message_json [context_block tx])"
        using sent(7) ext by simp
      show "trace s' = trace s @ [Request_sent (clock s1) Create (probe_request tx),
          Response_done (clock s1 + dp) Create,
          Timer_fired (clock s1 + 3),
          Request_sent (max (clock s1 + 3) (clock s1 + dp)) Stream (final_request tx),
          Response_done (clock s') Stream]"
        using sent(9) tx' by simp
    qed (simp_all add: probe_request_def final_request_def)
  qed
  from ser spec std show ?thesis by blast
qed


theorem context_message_reused_unchanged_witness:
  "\<exists>evs evs2.
      serialize (heap (snd (create_initial_message SQLITE_SOURCES
            (fake_env fetch_ok (4, Inr \<lparr>usage = cold_usage\<rparr>) fake_stream) state0))) (VRef 5) =
        Some (message_json [context_block fake_text]) \<and>
      serialize (heap (snd (speculative_prompt_caching_demo
            (fake_env fetch_ok (4, Inr \<lparr>usage = cold_usage\<rparr>) fake_stream) state0))) (VRef 5) =
        Some (message_json [context_block fake_text]) \<and>
      trace (snd (speculative_prompt_caching_demo
            (fake_env fetch_ok (4, Inr \<lparr>usage = cold_usage\<rparr>) fake_stream) state0)) =
        trace state0 @ evs \<and>
      Request_sent (1 / 10) Create (probe_request fake_text) \<in> set evs \<and>
      rq_messages (probe_request fake_text) = JList [message_json [context_block fake_text]] \<and>
      Request_sent (41 / 10) Stream (final_request fake_text) \<in> set evs \<and>
      rq_messages (final_request fake_text) =
        JList [message_json [context_block fake_text, question_json]] \<and>
      serialize (heap (snd (standard_prompt_caching_demo
            (fake_env fetch_ok (4, Inr \<lparr>usage = cold_usage\<rparr>) fake_stream) state0))) (VRef 5) =
        Some (message_json [context_block fake_text]) \<and>
      trace (snd (standard_prompt_caching_demo
            (fake_env fetch_ok (4, Inr \<lparr>usage = cold_usage\<rparr>) fake_stream) state0)) =
        trace state0 @ evs2 \<and>
      Request_sent (31 / 10) Stream (final_request fake_text) \<in> set evs2"
proof -
  let ?E = "fake_env fetch_ok (4, Inr \<lparr>usage = cold_usage\<rparr>) fake_stream"
  let ?s1 = "snd (create_initial_message SQLITE_SOURCES ?E state0)"
  let ?s' = "snd (speculative_prompt_caching_demo ?E state0)"
  let ?s2 = "snd (standard_prompt_caching_demo ?E state0)"
  have h: "heap state0 = module_heap @ []" by (simp add: state0_def)
  have cim: "create_initial_message SQLITE_SOURCES ?E state0 = (Inr (VRef 5), ?s1)"
    by (simp add: fake_context)
  have run: "speculative_prompt_caching_demo ?E state0 =
      (fst (speculative_prompt_caching_demo ?E state0), ?s')"
    by simp
  have run2: "standard_prompt_caching_demo ?E state0 =
      (fst (standard_prompt_caching_demo ?E state0), ?s2)"
    by simp
  from context_message_reused_unchanged[OF h cim run run2] obtain tx evs evs2 where
    a: "serialize (heap ?s1) (VRef 5) = Some (message_json [context_block tx])"
    and b: "serialize (heap ?s') (VRef 5) = Some (message_json [context_block tx])"
    and c: "trace ?s' = trace state0 @ evs"
    and d: "serialize (heap ?s2) (VRef 5) = Some (message_json [context_block tx])"
    and e: "trace ?s2 = trace state0 @ evs2"
    by blast
  have "serialize (heap ?s1) (VRef 5) = Some (message_json [context_block fake_text])"
    using serialize_message[of 2 module_heap 5 fake_text "[]"]
    by (subst fake_context) simp
  with a have tx: "tx = fake_text"
    by (simp add: message_json_def context_block_def)
  from fake_speculative_trace[of 4 "\<lparr>usage = cold_usage\<rparr>" fake_stream] c
  have m: "Request_sent (1 / 10) Create (probe_request fake_text) \<in> set evs"
    "Request_sent (41 / 10) Stream (final_request fake_text) \<in> set evs"
    by (auto simp: state0_def)
  from fake_standard_trace[of "(4, Inr \<lparr>usage = cold_usage\<rparr>)" fake_stream] e
  have m2: "Request_sent (31 / 10) Stream (final_request fake_text) \<in> set evs2"
    by (auto simp: state0_def)
  from a b c d e m m2 show ?thesis
    unfolding tx
    by (intro exI[of _ evs] exI[of _ evs2]) (simp add: probe_request_def final_request_def)
qed

section \<open>Time to first token\<close>

lemma first_nonblank:
  assumes b: "\<forall>c\<in>set pre. strip (snd c) = []" and n: "strip tx \<noteq> []"
  shows "text_stream_loop emoji start_time (pre @ (d, tx) # post) None s =
        (Inr (Some (clock s + sum_list (map fst pre) + d - start_time), post),
         s\<lparr>clock := clock s + sum_list (map fst pre) + d,
           stdout := stdout s @ [[Txt ''\<newline>'', Uni emoji, Txt '' Time to first token: '',
                     Fixed 2 (clock s + sum_list (map fst pre) + d - start_time), Txt '' seconds'']]\<rparr>)"
  using text_stream_loop_blank[OF b, of emoji start_time "(d, tx) # post" s] n
  by simp

lemma all_blank:
  assumes b: "\<forall>c\<in>set pre. strip (snd c) = []"
  shows "text_stream_loop emoji start_time pre None s =
        (Inr (None, []), s\<lparr>clock := clock s + sum_list (map fst pre)\<rparr>)"
  using text_stream_loop_blank[OF b, of emoji start_time "[]" s]
  by simp

lemma loop_first_token:
  assumes l: "text_stream_loop emoji st cs None s = (Inr (ftt, rs), s')"
  shows "(\<forall>pre d tx post. cs = pre @ (d, tx) # post \<longrightarrow>
            (\<forall>c\<in>set pre. strip (snd c) = []) \<longrightarrow> strip tx \<noteq> [] \<longrightarrow>
            ftt = Some (clock s + sum_list (map fst pre) + d - st)) \<and>
         ((\<forall>c\<in>set cs. strip (snd c) = []) \<longrightarrow> ftt = None)"
proof (intro conjI allI impI)
  fix pre d tx post
  assume "cs = pre @ (d, tx) # post" "\<forall>c\<in>set pre. strip (snd c) = []" "strip tx \<noteq> []"
  with first_nonblank[of pre tx emoji st d post s] l
  show "ftt = Some (clock s + sum_list (map fst pre) + d - st)" by simp
next
  assume "\<forall>c\<in>set cs. strip (snd c) = []"
  with all_blank[of cs emoji st s] l show "ftt = None" by simp
qed

text \<open>
  The time to first token depends on the units of the stream and on the time that has
  passed since \<^verbatim>\<open>start_time\<close> was read, not on the run.
\<close>

lemma loop_first_token_unique:
  assumes l1: "text_stream_loop e1 st1 cs None s1 = (Inr (f1, r1), s1')"
    and l2: "text_stream_loop e2 st2 cs None s2 = (Inr (f2, r2), s2')"
    and c: "clock s1 - st1 = clock s2 - st2"
  shows "f1 = f2"
proof (cases "\<forall>c\<in>set cs. strip (snd c) = []")
  case True
  with loop_first_token[OF l1] loop_first_token[OF l2] show ?thesis by simp
next
  case False
  then have "\<exists>x\<in>set cs. strip (snd x) \<noteq> []" by simp
  from split_list_first_prop[OF this] obtain pre x post where
    cs: "cs = pre @ x # post" and n: "strip (snd x) \<noteq> []"
    and b: "\<forall>c\<in>set pre. strip (snd c) = []"
    by auto
  obtain d tx where x: "x = (d, tx)" by (cases x)
  from first_nonblank[OF b, of tx e1 st1 d post s1] l1 cs x n
  have a1: "f1 = Some (clock s1 + sum_list (map fst pre) + d - st1)" by simp
  from first_nonblank[OF b, of tx e2 st2 d post s2] l2 cs x n
  have a2: "f2 = Some (clock s2 + sum_list (map fst pre) + d - st2)" by simp
  from c have "clock s1 + sum_list (map fst pre) + d - st1 =
      clock s2 + sum_list (map fst pre) + d - st2"
    by simp
  with a1 a2 show ?thesis by simp
qed

text \<open>
  C6. The time to first token is taken at the first unit of the stream that is not empty
  after \<^verbatim>\<open>strip()\<close>, that is, the first unit with a code point that is not whitespace;
  units before it that are empty or whitespace do not set it, and a stream of such units
  only leaves it \<^verbatim>\<open>None\<close>. In both demonstrations it is measured from the moment the
  request is sent: once the context message is built, the standard run sends the final
  request at the end of the think time and the speculative run, when its probe succeeds,
  at the later of the think time and the probe's completion; each returns, unless the
  stream ends with an error, the time the stream took to open plus the arrival delays
  up to that unit, and as total time the time to open, all delays and the time to the
  final message.
\<close>

theorem first_token_time_first_nonblank:
  "(strip tx = [] \<longleftrightarrow> (\<forall>c\<in>set tx. isspace c)) \<and>
   ((\<forall>c\<in>set pre. strip (snd c) = []) \<longrightarrow> strip tx \<noteq> [] \<longrightarrow>
      fst (text_stream_loop emoji start_time (pre @ (d, tx) # post) None s) =
        Inr (Some (clock s + sum_list (map fst pre) + d - start_time), post)) \<and>
   ((\<forall>c\<in>set pre. strip (snd c) = []) \<longrightarrow>
      fst (text_stream_loop emoji start_time pre None s) = Inr (None, [])) \<and>
   (heap s = module_heap @ rest \<longrightarrow>
    create_initial_message SQLITE_SOURCES env s = (Inr im, s1) \<longrightarrow>
      (\<exists>ctx ftt.
         heap s1 = heap s @ context_objects (length (heap s)) ctx \<and>
         (\<forall>pre d tx post. chunks (messages_stream env (final_request ctx)) = pre @ (d, tx) # post \<longrightarrow>
            (\<forall>c\<in>set pre. strip (snd c) = []) \<longrightarrow> strip tx \<noteq> [] \<longrightarrow>
            ftt = Some (open_delay (messages_stream env (final_request ctx)) +
                        sum_list (map fst pre) + d)) \<and>
         ((\<forall>c\<in>set (chunks (messages_stream env (final_request ctx))). strip (snd c) = []) \<longrightarrow>
            ftt = None) \<and>
         Request_sent (clock s1 + 3) Stream (final_request ctx) \<in>
           set (trace (snd (standard_prompt_caching_demo env s))) \<and>
         fst (standard_prompt_caching_demo env s) =
           (case snd (ending (messages_stream env (final_request ctx))) of
              Inl e \<Rightarrow> Inl e
            | Inr response \<Rightarrow>
                Inr (ftt, open_delay (messages_stream env (final_request ctx)) +
                          sum_list (map fst (chunks (messages_stream env (final_request ctx)))) +
                          fst (ending (messages_stream env (final_request ctx))))) \<and>
         (\<forall>dp resp. messages_create env (probe_request ctx) = (dp, Inr resp) \<longrightarrow>
            Request_sent (max (clock s1 + 3) (clock s1 + dp)) Stream (final_request ctx) \<in>
              set (trace (snd (speculative_prompt_caching_demo env s))) \<and>
            fst (speculative_prompt_caching_demo env s) =
              (case snd (ending (messages_stream env (final_request ctx))) of
                 Inl e \<Rightarrow> Inl e
               | Inr response \<Rightarrow>
                   Inr (ftt, open_delay (messages_stream env (final_request ctx)) +
                             sum_list (map fst (chunks (messages_stream env (final_request ctx)))) +
                             fst (ending (messages_stream env (final_request ctx))))))))"
proof (intro conjI impI)
  show "strip tx = [] \<longleftrightarrow> (\<forall>c\<in>set tx. isspace c)" by (rule strip_empty_iff)
next
  assume "\<forall>c\<in>set pre. strip (snd c) = []" "strip tx \<noteq> []"
  then show "fst (text_stream_loop emoji start_time (pre @ (d, tx) # post) None s) =
        Inr (Some (clock s + sum_list (map fst pre) + d - start_time), post)"
    by (simp add: first_nonblank)
next
  assume "\<forall>c\<in>set pre. strip (snd c) = []"
  then show "fst (text_stream_loop emoji start_time pre None s) = Inr (None, [])"
    by (simp add: all_blank)
next
  assume h: "heap s = module_heap @ rest"
    and cim: "create_initial_message SQLITE_SOURCES env s = (Inr im, s1)"
  let ?sr = "standard_prompt_caching_demo env s"
  let ?pr = "speculative_prompt_caching_demo env s"
  have run2: "?sr = (fst ?sr, snd ?sr)" by simp
  have run: "?pr = (fst ?pr, snd ?pr)" by simp
  from h cim run2 show "\<exists>ctx ftt.
         heap s1 = heap s @ context_objects (length (heap s)) ctx \<and>
         (\<forall>pre d tx post. chunks (messages_stream env (final_request ctx)) = pre @ (d, tx) # post \<longrightarrow>
            (\<forall>c\<in>set pre. strip (snd c) = []) \<longrightarrow> strip tx \<noteq> [] \<longrightarrow>
            ftt = Some (open_delay (messages_stream env (final_request ctx)) +
                        sum_list (map fst pre) + d)) \<and>
         ((\<forall>c\<in>set (chunks (messages_stream env (final_request ctx))). strip (snd c) = []) \<longrightarrow>
            ftt = None) \<and>
         Request_sent (clock s1 + 3) Stream (final_request ctx) \<in> set (trace (snd ?sr)) \<and>
         fst ?sr =
           (case snd (ending (messages_stream env (final_request ctx))) of
              Inl e \<Rightarrow> Inl e
            | Inr response \<Rightarrow>
                Inr (ftt, open_delay (messages_stream env (final_request ctx)) +
                          sum_list (map fst (chunks (messages_stream env (final_request ctx)))) +
                          fst (ending (messages_stream env (final_request ctx))))) \<and>
         (\<forall>dp resp. messages_create env (probe_request ctx) = (dp, Inr resp) \<longrightarrow>
            Request_sent (max (clock s1 + 3) (clock s1 + dp)) Stream (final_request ctx) \<in>
              set (trace (snd ?pr)) \<and>
            fst ?pr =
              (case snd (ending (messages_stream env (final_request ctx))) of
                 Inl e \<Rightarrow> Inl e
               | Inr response \<Rightarrow>
                   Inr (ftt, open_delay (messages_stream env (final_request ctx)) +
                             sum_list (map fst (chunks (messages_stream env (final_request ctx)))) +
                             fst (ending (messages_stream env (final_request ctx))))))"
  proof (cases rule: standard_outcome)
    case (1 ctx ftt rs s3 s4)
    let ?S = "messages_stream env (final_request ctx)"
    have hs: "heap s1 = heap s @ context_objects (length (heap s)) ctx"
      using 1(2) h by (simp add: add.commute)
    have f1: "\<forall>pre d tx post. chunks ?S = pre @ (d, tx) # post \<longrightarrow>
            (\<forall>c\<in>set pre. strip (snd c) = []) \<longrightarrow> strip tx \<noteq> [] \<longrightarrow>
            ftt = Some (open_delay ?S + sum_list (map fst pre) + d)"
    proof (intro allI impI)
      fix pre d tx post
      assume "chunks ?S = pre @ (d, tx) # post" "\<forall>c\<in>set pre. strip (snd c) = []" "strip tx \<noteq> []"
      with loop_first_token[OF 1(4)]
      have "ftt = Some (clock s3 + sum_list (map fst pre) + d - (clock s1 + 3))" by blast
      with 1(3) show "ftt = Some (open_delay ?S + sum_list (map fst pre) + d)" by simp
    qed
    have f2: "(\<forall>c\<in>set (chunks ?S). strip (snd c) = []) \<longrightarrow> ftt = None"
      using loop_first_token[OF 1(4)] by blast
    have t: "Request_sent (clock s1 + 3) Stream (final_request ctx) \<in> set (trace (snd ?sr))"
      using 1(8) by simp
    have sp: "\<forall>dp resp. messages_create env (probe_request ctx) = (dp, Inr resp) \<longrightarrow>
            Request_sent (max (clock s1 + 3) (clock s1 + dp)) Stream (final_request ctx) \<in>
              set (trace (snd ?pr)) \<and>
            fst ?pr =
              (case snd (ending ?S) of
                 Inl e \<Rightarrow> Inl e
               | Inr response \<Rightarrow>
                   Inr (ftt, open_delay ?S + sum_list (map fst (chunks ?S)) + fst (ending ?S)))"
    proof (intro allI impI)
      fix dp resp assume pr: "messages_create env (probe_request ctx) = (dp, Inr resp)"
      from h cim run show "Request_sent (max (clock s1 + 3) (clock s1 + dp)) Stream (final_request ctx) \<in>
              set (trace (snd ?pr)) \<and>
            fst ?pr =
              (case snd (ending ?S) of
                 Inl e \<Rightarrow> Inl e
               | Inr response \<Rightarrow>
                   Inr (ftt, open_delay ?S + sum_list (map fst (chunks ?S)) + fst (ending ?S)))"
      proof (cases rule: speculative_outcome)
        case (probe_failed tx' dp' e)
        from probe_failed(2) 1(2) have "tx' = ctx" by (simp add: context_objects_inj)
        with probe_failed(3) pr show ?thesis by simp
      next
        case (sent tx' dp' resp' ftt' rs' s3' s4')
        from sent(2) 1(2) have tx': "tx' = ctx" by (simp add: context_objects_inj)
        with sent(3) pr have dp': "dp' = dp" by simp
        from sent(4) 1(3) have "clock s3' - max (clock s1 + 3) (clock s1 + dp) =
            clock s3 - (clock s1 + 3)"
          by (simp add: tx' dp')
        from loop_first_token_unique[OF sent(5)[unfolded tx' dp'] 1(4) this]
        have eq: "ftt' = ftt" .
        from sent(6)[unfolded tx' eq] sent(9)[unfolded tx' dp'] show ?thesis by simp
      qed
    qed
    from hs f1 f2 t 1(5) sp show ?thesis
      by (intro exI[of _ ctx] exI[of _ ftt] conjI)
  qed
qed

theorem first_token_time_first_nonblank_witness:
  "strip [0x3000, 0x20] = [] \<and> strip (code_points ''Hi'') \<noteq> [] \<and>
   fst (text_stream_loop 0x1F680 0
          ([(1, [0x3000, 0x20])] @ (1 / 2, code_points ''Hi'') # [(1, code_points '' there'')])
          None state0) =
     Inr (Some (3 / 2), [(1, code_points '' there'')]) \<and>
   fst (text_stream_loop 0x1F680 0 [(1, [0x3000, 0x20])] None state0) = Inr (None, []) \<and>
   heap state0 = module_heap @ [] \<and>
   chunks (messages_stream (fake_env fetch_ok (4, Inr \<lparr>usage = cold_usage\<rparr>) fake_stream)
             (final_request fake_text)) =
     [(1, [0x3000, 0x20])] @ (1 / 2, code_points ''Hi'') # [(1, code_points '' there'')] \<and>
   open_delay (messages_stream (fake_env fetch_ok (4, Inr \<lparr>usage = cold_usage\<rparr>) fake_stream)
                 (final_request fake_text)) = 1 / 4 \<and>
   Request_sent (31 / 10) Stream (final_request fake_text) \<in>
     set (trace (snd (standard_prompt_caching_demo
            (fake_env fetch_ok (4, Inr \<lparr>usage = cold_usage\<rparr>) fake_stream) state0))) \<and>
   fst (standard_prompt_caching_demo
          (fake_env fetch_ok (4, Inr \<lparr>usage = cold_usage\<rparr>) fake_stream) state0) =
     Inr (Some (7 / 4), 3) \<and>
   Request_sent (41 / 10) Stream (final_request fake_text) \<in>
     set (trace (snd (speculative_prompt_caching_demo
            (fake_env fetch_ok (4, Inr \<lparr>usage = cold_usage\<rparr>) fake_stream) state0))) \<and>
   fst (speculative_prompt_caching_demo
          (fake_env fetch_ok (4, Inr \<lparr>usage = cold_usage\<rparr>) fake_stream) state0) =
     Inr (Some (7 / 4), 3)"
proof -
  let ?E = "fake_env fetch_ok (4, Inr \<lparr>usage = cold_usage\<rparr>) fake_stream"
  let ?blank = "[0x3000, 0x20] :: pystr"
  let ?s1 = "state0\<lparr>clock := 1 / 10,
        stdout :=
          [[Txt ''Downloading SQLite source files...''],
           [Txt ''Successfully downloaded btree.h''],
           [Txt ''Successfully downloaded btree.c''],
           [Txt ''Downloaded 2 files in '', Fixed 2 (1 / 10), Txt '' seconds'']],
        heap := module_heap @ context_objects 2 fake_text\<rparr>"
  have b: "\<forall>c\<in>set [(1::real, ?blank)]. strip (snd c) = []"
    by (simp add: strip_def isspace_def)
  have n: "strip (code_points ''Hi'') \<noteq> []"
    by (simp add: strip_def isspace_def code_points_def)
  have h: "heap state0 = module_heap @ []" by (simp add: state0_def)
  have cim: "create_initial_message SQLITE_SOURCES ?E state0 = (Inr (VRef 5), ?s1)"
    by (rule fake_context)
  note t = first_token_time_first_nonblank[where tx = "code_points ''Hi''"
      and pre = "[(1, ?blank)]" and emoji = "0x1F680" and start_time = 0 and d = "1 / 2"
      and post = "[(1, code_points '' there'')]" and s = state0 and rest = "[]" and env = ?E
      and im = "VRef 5" and ?s1.0 = ?s1]
  from t b n have l1: "fst (text_stream_loop 0x1F680 0
          ([(1, ?blank)] @ (1 / 2, code_points ''Hi'') # [(1, code_points '' there'')]) None state0) =
     Inr (Some (clock state0 + sum_list (map fst [(1::real, ?blank)]) + 1 / 2 - 0),
          [(1, code_points '' there'')])"
    by blast
  from t b have l2: "fst (text_stream_loop 0x1F680 0 [(1, ?blank)] None state0) = Inr (None, [])"
    by blast
  from t h cim obtain ctx ftt where
    hs: "heap ?s1 = heap state0 @ context_objects (length (heap state0)) ctx"
    and f: "\<forall>pre d tx post. chunks (messages_stream ?E (final_request ctx)) = pre @ (d, tx) # post \<longrightarrow>
            (\<forall>c\<in>set pre. strip (snd c) = []) \<longrightarrow> strip tx \<noteq> [] \<longrightarrow>
            ftt = Some (open_delay (messages_stream ?E (final_request ctx)) +
                        sum_list (map fst pre) + d)"
    and ts: "Request_sent (clock ?s1 + 3) Stream (final_request ctx) \<in>
           set (trace (snd (standard_prompt_caching_demo ?E state0)))"
    and rs: "fst (standard_prompt_caching_demo ?E state0) =
           (case snd (ending (messages_stream ?E (final_request ctx))) of
              Inl e \<Rightarrow> Inl e
            | Inr response \<Rightarrow>
                Inr (ftt, open_delay (messages_stream ?E (final_request ctx)) +
                          sum_list (map fst (chunks (messages_stream ?E (final_request ctx)))) +
                          fst (ending (messages_stream ?E (final_request ctx)))))"
    and sp: "\<forall>dp resp. messages_create ?E (probe_request ctx) = (dp, Inr resp) \<longrightarrow>
            Request_sent (max (clock ?s1 + 3) (clock ?s1 + dp)) Stream (final_request ctx) \<in>
              set (trace (snd (speculative_prompt_caching_demo ?E state0))) \<and>
            fst (speculative_prompt_caching_demo ?E state0) =
              (case snd (ending (messages_stream ?E (final_request ctx))) of
                 Inl e \<Rightarrow> Inl e
               | Inr response \<Rightarrow>
                   Inr (ftt, open_delay (messages_stream ?E (final_request ctx)) +
                             sum_list (map fst (chunks (messages_stream ?E (final_request ctx)))) +
                             fst (ending (messages_stream ?E (final_request ctx)))))"
    by blast
  from hs have ctx: "ctx = fake_text" by (simp add: state0_def context_objects_inj)
  have c: "chunks (messages_stream ?E (final_request fake_text)) =
      [(1, ?blank)] @ (1 / 2, code_points ''Hi'') # [(1, code_points '' there'')]"
    by (simp add: fake_env_def fake_stream_def)
  have o: "open_delay (messages_stream ?E (final_request fake_text)) = 1 / 4"
    by (simp add: fake_env_def fake_stream_def)
  have e: "ending (messages_stream ?E (final_request fake_text)) = (1 / 4, Inr \<lparr>usage = warm_usage\<rparr>)"
    by (simp add: fake_env_def fake_stream_def)
  have pr: "messages_create ?E (probe_request fake_text) = (4, Inr \<lparr>usage = cold_usage\<rparr>)"
    by (simp add: fake_env_def)
  from f[unfolded ctx] c b n
  have "ftt = Some (open_delay (messages_stream ?E (final_request fake_text)) +
                    sum_list (map fst [(1::real, ?blank)]) + 1 / 2)"
    by blast
  with o have ftt: "ftt = Some (7 / 4)" by simp
  from ts have ts': "Request_sent (31 / 10) Stream (final_request fake_text) \<in>
           set (trace (snd (standard_prompt_caching_demo ?E state0)))"
    by (simp add: ctx)
  from rs have rs': "fst (standard_prompt_caching_demo ?E state0) = Inr (Some (7 / 4), 3)"
    unfolding ctx e c o ftt by simp
  from sp[unfolded ctx] pr
  have sp1: "Request_sent (max (clock ?s1 + 3) (clock ?s1 + 4)) Stream (final_request fake_text) \<in>
              set (trace (snd (speculative_prompt_caching_demo ?E state0)))"
    and sp2: "fst (speculative_prompt_caching_demo ?E state0) =
              (case snd (ending (messages_stream ?E (final_request fake_text))) of
                 Inl e \<Rightarrow> Inl e
               | Inr response \<Rightarrow>
                   Inr (ftt, open_delay (messages_stream ?E (final_request fake_text)) +
                             sum_list (map fst (chunks (messages_stream ?E (final_request fake_text)))) +
                             fst (ending (messages_stream ?E (final_request fake_text)))))"
    by blast+
  from sp1 have sp1': "Request_sent (41 / 10) Stream (final_request fake_text) \<in>
              set (trace (snd (speculative_prompt_caching_demo ?E state0)))"
    by simp
  from sp2 have sp2': "fst (speculative_prompt_caching_demo ?E state0) = Inr (Some (7 / 4), 3)"
    unfolding e c o ftt by simp
  from b have b': "strip ?blank = []" by simp
  from l1 have l1': "fst (text_stream_loop 0x1F680 0
          ([(1, ?blank)] @ (1 / 2, code_points ''Hi'') # [(1, code_points '' there'')]) None state0) =
     Inr (Some (3 / 2), [(1, code_points '' there'')])"
    by (simp add: state0_def)
  from b' n l1' l2 h c o ts' rs' sp1' sp2' show ?thesis
    by (intro conjI)
qed

section \<open>The statistics\<close>
















section \<open>The uniqueness token\<close>

text \<open>
  C3, at an input where the code does not meet it. The uniqueness token is the local time
  formatted to the second. Two runs that read the clock at different instants of the same
  second, 12:00:00.1 and 12:00:00.5, and download the same sources build context
  messages with the same JSON.
\<close>

theorem same_second_runs_collide:
  "datetime_now (fake_env fetch_ok (4, Inr \<lparr>usage = cold_usage\<rparr>) fake_stream) (1 / 10) \<noteq>
     datetime_now (fake_env fetch_ok (4, Inr \<lparr>usage = cold_usage\<rparr>) fake_stream) (1 / 2) \<and>
   fst (create_initial_message SQLITE_SOURCES
          (fake_env fetch_ok (4, Inr \<lparr>usage = cold_usage\<rparr>) fake_stream) state0) = Inr (VRef 5) \<and>
   clock (snd (create_initial_message SQLITE_SOURCES
          (fake_env fetch_ok (4, Inr \<lparr>usage = cold_usage\<rparr>) fake_stream) state0)) = 1 / 10 \<and>
   fst (create_initial_message SQLITE_SOURCES
          (fake_env fetch_ok (4, Inr \<lparr>usage = cold_usage\<rparr>) fake_stream)
          (state0\<lparr>clock := 2 / 5\<rparr>)) = Inr (VRef 5) \<and>
   clock (snd (create_initial_message SQLITE_SOURCES
          (fake_env fetch_ok (4, Inr \<lparr>usage = cold_usage\<rparr>) fake_stream)
          (state0\<lparr>clock := 2 / 5\<rparr>))) = 1 / 2 \<and>
   serialize (heap (snd (create_initial_message SQLITE_SOURCES
          (fake_env fetch_ok (4, Inr \<lparr>usage = cold_usage\<rparr>) fake_stream) state0))) (VRef 5) =
     Some (message_json [context_block fake_text]) \<and>
   serialize (heap (snd (create_initial_message SQLITE_SOURCES
          (fake_env fetch_ok (4, Inr \<lparr>usage = cold_usage\<rparr>) fake_stream)
          (state0\<lparr>clock := 2 / 5\<rparr>)))) (VRef 5) =
     Some (message_json [context_block fake_text])"
proof -
  let ?E = "fake_env fetch_ok (4, Inr \<lparr>usage = cold_usage\<rparr>) fake_stream"
  have d: "datetime_now ?E (1 / 10) \<noteq> datetime_now ?E (1 / 2)"
    by (simp add: fake_env_def fake_clock_def)
  have a: "create_initial_message SQLITE_SOURCES ?E state0 =
     (Inr (VRef 5),
      state0\<lparr>clock := 1 / 10,
        stdout :=
          [[Txt ''Downloading SQLite source files...''],
           [Txt ''Successfully downloaded btree.h''],
           [Txt ''Successfully downloaded btree.c''],
           [Txt ''Downloaded 2 files in '', Fixed 2 (1 / 10), Txt '' seconds'']],
        heap := module_heap @ context_objects 2 fake_text\<rparr>)"
    by (rule fake_context)
  have b: "create_initial_message SQLITE_SOURCES ?E (state0\<lparr>clock := 2 / 5\<rparr>) =
     (Inr (VRef 5),
      state0\<lparr>clock := 1 / 2,
        stdout :=
          [[Txt ''Downloading SQLite source files...''],
           [Txt ''Successfully downloaded btree.h''],
           [Txt ''Successfully downloaded btree.c''],
           [Txt ''Downloaded 2 files in '', Fixed 2 (1 / 10), Txt '' seconds'']],
        heap := module_heap @ context_objects 2 fake_text\<rparr>)"
    using create_initial_message_fake[of "state0\<lparr>clock := 2 / 5\<rparr>" "(4, Inr \<lparr>usage = cold_usage\<rparr>)" fake_stream]
    by (simp add: state0_def)
  have s: "serialize (module_heap @ context_objects 2 fake_text) (VRef 5) =
      Some (message_json [context_block fake_text])"
    using serialize_message[of 2 module_heap 5 fake_text "[]"] by simp
  show ?thesis
    using d by (simp only: a b fst_conv snd_conv) (simp add: s)
qed

end
